theory Spec2Isabelle
  imports Main "HOL-Library.Word"
begin

unbundle bit_operations_syntax

section \<open>Machine types and library constants\<close>

type_synonym u8 = "8 word"
type_synonym u16 = "16 word"
type_synonym u32 = "32 word"

text \<open>Callback results of libmnl (\<^verbatim>\<open>libmnl.h\<close>).\<close>

abbreviation MNL_CB_ERROR :: int where "MNL_CB_ERROR \<equiv> - 1"
abbreviation MNL_CB_STOP :: int where "MNL_CB_STOP \<equiv> 0"
abbreviation MNL_CB_OK :: int where "MNL_CB_OK \<equiv> 1"

text \<open>
  Undefined behaviour of the C program is a value of the model: a read past the end of
  an attribute payload, a write outside the 33 bytes of an SSID array, an access to a
  slot outside the storage the caller passed, the overflow of the signed counter, and
  the use of a channel without a socket. A call that does not return, because a blocking
  receive never gets a datagram, is a value of the same type.
\<close>

datatype fault =
    OutOfBoundsRead | SsidOverrun | SlotOutOfBounds | SignedOverflow | NullSocket | BlocksForever

section \<open>Netlink attributes as libmnl presents them\<close>

text \<open>
  \<^verbatim>\<open>struct nlattr\<close>: a 4-byte header (\<^verbatim>\<open>nla_len\<close>, \<^verbatim>\<open>nla_type\<close>, both 16 bit in host byte
  order) followed by \<^verbatim>\<open>nla_len - 4\<close> payload bytes. The record holds what the accessors
  \<^verbatim>\<open>mnl_attr_get_type\<close>, \<^verbatim>\<open>mnl_attr_get_payload\<close> and \<^verbatim>\<open>mnl_attr_get_payload_len\<close> read.
\<close>

record nlattr =
  nla_type :: u16
  nla_payload :: "u8 list"

definition le16 :: "u8 list \<Rightarrow> nat" where
  "le16 bs = (case bs of b0 # b1 # _ \<Rightarrow> unat b0 + 256 * unat b1 | _ \<Rightarrow> 0)"

definition MNL_ALIGN :: "nat \<Rightarrow> nat" where
  "MNL_ALIGN n = ((n + 3) div 4) * 4"

text \<open>\<^verbatim>\<open>mnl_attr_ok(attr, len)\<close> on the bytes that remain.\<close>

definition mnl_attr_ok :: "u8 list \<Rightarrow> bool" where
  "mnl_attr_ok bs \<longleftrightarrow> 4 \<le> length bs \<and> 4 \<le> le16 bs \<and> le16 bs \<le> length bs"

definition mnl_attr_at :: "u8 list \<Rightarrow> nlattr" where
  "mnl_attr_at bs =
     \<lparr>nla_type = word_of_nat (le16 (drop 2 bs)),
      nla_payload = take (le16 bs - 4) (drop 4 bs)\<rparr>"

text \<open>
  The iteration of \<^verbatim>\<open>mnl_attr_for_each\<close> and \<^verbatim>\<open>mnl_attr_for_each_nested\<close>: from the first
  byte, while \<^verbatim>\<open>mnl_attr_ok\<close> holds, step by the aligned length (\<^verbatim>\<open>mnl_attr_next\<close>).
\<close>

function mnl_attr_for_each :: "u8 list \<Rightarrow> nlattr list" where
  "mnl_attr_for_each bs =
     (if mnl_attr_ok bs
      then mnl_attr_at bs # mnl_attr_for_each (drop (MNL_ALIGN (le16 bs)) bs)
      else [])"
  by pat_completeness auto
termination
  by (relation "measure length") (auto simp: mnl_attr_ok_def MNL_ALIGN_def)

declare mnl_attr_for_each.simps [simp del]

text \<open>\<^verbatim>\<open>mnl_attr_get_type\<close>: the type without the two flag bits (\<^verbatim>\<open>NLA_TYPE_MASK\<close>).\<close>

definition mnl_attr_get_type :: "nlattr \<Rightarrow> nat" where
  "mnl_attr_get_type a = unat (nla_type a AND 0x3FFF)"

definition mnl_attr_get_payload_len :: "nlattr \<Rightarrow> nat" where
  "mnl_attr_get_payload_len a = length (nla_payload a)"

text \<open>
  The integer getters read the first bytes of the payload in host byte order, taken as
  little-endian. Every call in the library is on an attribute that passed validation for
  the integer type, so the payload has exactly that many bytes (lemmas
  \<open>validated_u32_length\<close> and following).
\<close>

definition le_word :: "u8 list \<Rightarrow> 'a::len word" where
  "le_word bs = foldr (\<lambda>b acc. ucast b + 256 * acc) bs 0"

definition mnl_attr_get_u8 :: "nlattr \<Rightarrow> u8" where
  "mnl_attr_get_u8 a = le_word (take 1 (nla_payload a))"

definition mnl_attr_get_u16 :: "nlattr \<Rightarrow> u16" where
  "mnl_attr_get_u16 a = le_word (take 2 (nla_payload a))"

definition mnl_attr_get_u32 :: "nlattr \<Rightarrow> u32" where
  "mnl_attr_get_u32 a = le_word (take 4 (nla_payload a))"

datatype mnl_attr_data_type =
    MNL_TYPE_UNSPEC | MNL_TYPE_U8 | MNL_TYPE_U16 | MNL_TYPE_U32 | MNL_TYPE_U64
  | MNL_TYPE_STRING | MNL_TYPE_FLAG | MNL_TYPE_MSECS | MNL_TYPE_NESTED
  | MNL_TYPE_NESTED_COMPAT | MNL_TYPE_NUL_STRING | MNL_TYPE_BINARY

text \<open>\<^verbatim>\<open>mnl_attr_data_type_len\<close>: the fixed size of the integer types, 0 for the others.\<close>

fun mnl_attr_data_type_len :: "mnl_attr_data_type \<Rightarrow> nat" where
  "mnl_attr_data_type_len MNL_TYPE_U8 = 1"
| "mnl_attr_data_type_len MNL_TYPE_U16 = 2"
| "mnl_attr_data_type_len MNL_TYPE_U32 = 4"
| "mnl_attr_data_type_len MNL_TYPE_U64 = 8"
| "mnl_attr_data_type_len MNL_TYPE_MSECS = 8"
| "mnl_attr_data_type_len _ = 0"

text \<open>
  \<^verbatim>\<open>__mnl_attr_validate\<close> of libmnl: the payload may not be shorter than the expected
  length, the per-type checks, and with an expected length it may not be longer either.
  The result is 0 or -1.
\<close>

definition mnl_attr_validate_len :: "nlattr \<Rightarrow> mnl_attr_data_type \<Rightarrow> nat \<Rightarrow> int" where
  "mnl_attr_validate_len a ty exp_len =
     (let attr_len = mnl_attr_get_payload_len a in
      if attr_len < exp_len then - 1
      else if ty = MNL_TYPE_FLAG \<and> 0 < attr_len then - 1
      else if ty = MNL_TYPE_NUL_STRING \<and> (attr_len = 0 \<or> last (nla_payload a) \<noteq> 0) then - 1
      else if ty = MNL_TYPE_STRING \<and> attr_len = 0 then - 1
      else if ty = MNL_TYPE_NESTED \<and> attr_len \<noteq> 0 \<and> attr_len < 4 then - 1
      else if exp_len \<noteq> 0 \<and> exp_len < attr_len then - 1
      else 0)"

definition mnl_attr_validate :: "nlattr \<Rightarrow> mnl_attr_data_type \<Rightarrow> int" where
  "mnl_attr_validate a ty = mnl_attr_validate_len a ty (mnl_attr_data_type_len ty)"

definition mnl_attr_validate2 :: "nlattr \<Rightarrow> mnl_attr_data_type \<Rightarrow> nat \<Rightarrow> int" where
  "mnl_attr_validate2 a ty exp_len = mnl_attr_validate_len a ty exp_len"

text \<open>\<^verbatim>\<open>mnl_attr_type_valid\<close>: -1 when the type is above the maximum, 1 otherwise.\<close>

definition mnl_attr_type_valid :: "nlattr \<Rightarrow> nat \<Rightarrow> int" where
  "mnl_attr_type_valid a mx = (if mx < mnl_attr_get_type a then - 1 else 1)"

text \<open>
  The loop of \<^verbatim>\<open>mnl_attr_parse\<close> and \<^verbatim>\<open>mnl_attr_parse_nested\<close>: the callback runs on each
  attribute in turn; a result \<open>\<le> MNL_CB_STOP\<close> ends the loop and is returned.
\<close>

fun mnl_attr_cb_loop ::
  "(nlattr \<Rightarrow> 'd \<Rightarrow> int \<times> 'd) \<Rightarrow> int \<Rightarrow> nlattr list \<Rightarrow> 'd \<Rightarrow> int \<times> 'd" where
  "mnl_attr_cb_loop cb ret [] d = (ret, d)"
| "mnl_attr_cb_loop cb ret (a # as) d =
     (case cb a d of (r, d') \<Rightarrow>
        if r \<le> MNL_CB_STOP then (r, d') else mnl_attr_cb_loop cb r as d')"

definition mnl_attr_parse_payload ::
  "u8 list \<Rightarrow> (nlattr \<Rightarrow> 'd \<Rightarrow> int \<times> 'd) \<Rightarrow> 'd \<Rightarrow> int \<times> 'd" where
  "mnl_attr_parse_payload bs cb d = mnl_attr_cb_loop cb MNL_CB_OK (mnl_attr_for_each bs) d"

definition mnl_attr_parse_nested ::
  "nlattr \<Rightarrow> (nlattr \<Rightarrow> 'd \<Rightarrow> int \<times> 'd) \<Rightarrow> 'd \<Rightarrow> int \<times> 'd" where
  "mnl_attr_parse_nested nested cb d = mnl_attr_parse_payload (nla_payload nested) cb d"

section \<open>The validation engine\<close>

record attribute_validation =
  av_attr :: nat
  av_type :: mnl_attr_data_type
  av_len :: nat

text \<open>
  \<^verbatim>\<open>struct validation_data\<close>. The attribute table is the array \<^verbatim>\<open>tb\<close> of the caller, one
  slot per identifier, \<^verbatim>\<open>NULL\<close> being \<open>None\<close>; the validation table carries its length.
\<close>

record validation_data =
  attribute_table :: "nat \<Rightarrow> nlattr option"
  attribute_length :: nat
  validation :: "attribute_validation list"

text \<open>The \<^verbatim>\<open>for\<close> loop of \<^verbatim>\<open>validate\<close>: every entry of the table whose identifier is the
  attribute's is checked, and the first failure ends the function with \<^verbatim>\<open>MNL_CB_ERROR\<close>.\<close>

fun validate_entries :: "nlattr \<Rightarrow> nat \<Rightarrow> attribute_validation list \<Rightarrow> int" where
  "validate_entries a ty [] = MNL_CB_OK"
| "validate_entries a ty (v # vs) =
     (if ty = av_attr v then
        (let len = av_len v in
         if len = 0 \<and> mnl_attr_validate a (av_type v) < 0 then MNL_CB_ERROR
         else if len \<noteq> 0 \<and> mnl_attr_validate2 a (av_type v) len < 0 then MNL_CB_ERROR
         else validate_entries a ty vs)
      else validate_entries a ty vs)"

definition validate :: "nlattr \<Rightarrow> validation_data \<Rightarrow> int \<times> validation_data" where
  "validate a vd =
     (let ty = mnl_attr_get_type a in
      if mnl_attr_type_valid a (attribute_length vd) < 0 then (MNL_CB_OK, vd)
      else if validate_entries a ty (validation vd) = MNL_CB_ERROR then (MNL_CB_ERROR, vd)
      else (MNL_CB_OK, vd\<lparr>attribute_table := (attribute_table vd)(ty \<mapsto> a)\<rparr>))"


section \<open>Messages, sockets and channels\<close>

text \<open>
  A received netlink message, by the fields the code reads: those of \<^verbatim>\<open>struct nlmsghdr\<close>,
  the command of the \<^verbatim>\<open>struct genlmsghdr\<close> that follows the header in a generic netlink
  message with the attribute bytes after it, and, for an \<^verbatim>\<open>NLMSG_ERROR\<close> message, the
  \<^verbatim>\<open>error\<close> field of \<^verbatim>\<open>struct nlmsgerr\<close>.
\<close>

record nlmsghdr =
  nlmsg_type :: u16
  nlmsg_flags :: u16
  nlmsg_seq :: u32
  nlmsg_pid :: u32
  genl_cmd :: u8
  genl_version :: u8
  genl_attrs :: "u8 list"
  nlmsgerr_error :: int

text \<open>\<^verbatim>\<open>mnl_attr_parse(nlh, sizeof(*genl), cb, data)\<close>: the attributes after the
  generic netlink header.\<close>

definition mnl_attr_parse ::
  "nlmsghdr \<Rightarrow> (nlattr \<Rightarrow> 'd \<Rightarrow> int \<times> 'd) \<Rightarrow> 'd \<Rightarrow> int \<times> 'd" where
  "mnl_attr_parse nlh cb d = mnl_attr_parse_payload (genl_attrs nlh) cb d"

text \<open>
  The kernel side of a socket is a script: what the successive calls of
  \<^verbatim>\<open>mnl_socket_recvfrom\<close> return, and which calls of \<^verbatim>\<open>mnl_socket_sendto\<close> and
  \<^verbatim>\<open>fcntl\<close> fail. A receive returns -1 with an \<^verbatim>\<open>errno\<close>, 0, or a positive
  number of bytes holding the messages that \<^verbatim>\<open>mnl_cb_run\<close> iterates over.
\<close>

datatype recv_event = RecvFail int | RecvZero | RecvData "nlmsghdr list"

record mnl_socket =
  portid :: u32
  inbox :: "recv_event list"
  nonblocking :: bool
  sendto_fails :: "bool list"
  fcntl_fails :: "bool list"

text \<open>\<^verbatim>\<open>struct netlink_channel\<close>. The buffer is the message in flight and the context is
  passed to each function that uses it.\<close>

record netlink_channel =
  nl :: "mnl_socket option"
  nl80211_id :: u16
  ifindex :: u32
  sequence :: u32

record context_CTRL_CMD_GETFAMILY =
  id_NL80211_MULTICAST_GROUP_SCAN :: u32

section \<open>Identifiers of the kernel interface\<close>

text \<open>
  From \<^verbatim>\<open>linux/genetlink.h\<close> and \<^verbatim>\<open>linux/nl80211.h\<close>. The \<^verbatim>\<open>_MAX\<close> values are those of
  the header the library is compiled against; a later header only raises them.
\<close>

named_theorems nl_consts

definition CTRL_ATTR_FAMILY_ID :: nat where [nl_consts]: "CTRL_ATTR_FAMILY_ID = 1"
definition CTRL_ATTR_MCAST_GROUPS :: nat where [nl_consts]: "CTRL_ATTR_MCAST_GROUPS = 7"
definition CTRL_ATTR_MAX :: nat where [nl_consts]: "CTRL_ATTR_MAX = 10"
definition CTRL_ATTR_MCAST_GRP_NAME :: nat where [nl_consts]: "CTRL_ATTR_MCAST_GRP_NAME = 1"
definition CTRL_ATTR_MCAST_GRP_ID :: nat where [nl_consts]: "CTRL_ATTR_MCAST_GRP_ID = 2"
definition CTRL_ATTR_MCAST_GRP_MAX :: nat where [nl_consts]: "CTRL_ATTR_MCAST_GRP_MAX = 2"

definition NL80211_ATTR_IFINDEX :: nat where [nl_consts]: "NL80211_ATTR_IFINDEX = 3"
definition NL80211_ATTR_STA_INFO :: nat where [nl_consts]: "NL80211_ATTR_STA_INFO = 21"
definition NL80211_ATTR_SCAN_SSIDS :: nat where [nl_consts]: "NL80211_ATTR_SCAN_SSIDS = 45"
definition NL80211_ATTR_BSS :: nat where [nl_consts]: "NL80211_ATTR_BSS = 47"
definition NL80211_ATTR_MAX :: nat where [nl_consts]: "NL80211_ATTR_MAX = 332"

definition NL80211_BSS_BSSID :: nat where [nl_consts]: "NL80211_BSS_BSSID = 1"
definition NL80211_BSS_FREQUENCY :: nat where [nl_consts]: "NL80211_BSS_FREQUENCY = 2"
definition NL80211_BSS_INFORMATION_ELEMENTS :: nat where
  [nl_consts]: "NL80211_BSS_INFORMATION_ELEMENTS = 6"
definition NL80211_BSS_SIGNAL_MBM :: nat where [nl_consts]: "NL80211_BSS_SIGNAL_MBM = 7"
definition NL80211_BSS_STATUS :: nat where [nl_consts]: "NL80211_BSS_STATUS = 9"
definition NL80211_BSS_SEEN_MS_AGO :: nat where [nl_consts]: "NL80211_BSS_SEEN_MS_AGO = 10"
definition NL80211_BSS_MAX :: nat where [nl_consts]: "NL80211_BSS_MAX = 24"

definition NL80211_STA_INFO_SIGNAL :: nat where [nl_consts]: "NL80211_STA_INFO_SIGNAL = 7"
definition NL80211_STA_INFO_RX_PACKETS :: nat where [nl_consts]: "NL80211_STA_INFO_RX_PACKETS = 9"
definition NL80211_STA_INFO_TX_PACKETS :: nat where [nl_consts]: "NL80211_STA_INFO_TX_PACKETS = 10"
definition NL80211_STA_INFO_MAX :: nat where [nl_consts]: "NL80211_STA_INFO_MAX = 45"

definition NL80211_CMD_GET_STATION :: u8 where [nl_consts]: "NL80211_CMD_GET_STATION = 17"
definition NL80211_CMD_NEW_STATION :: u8 where [nl_consts]: "NL80211_CMD_NEW_STATION = 19"
definition NL80211_CMD_GET_SCAN :: u8 where [nl_consts]: "NL80211_CMD_GET_SCAN = 32"
definition NL80211_CMD_TRIGGER_SCAN :: u8 where [nl_consts]: "NL80211_CMD_TRIGGER_SCAN = 33"
definition NL80211_CMD_NEW_SCAN_RESULTS :: u8 where
  [nl_consts]: "NL80211_CMD_NEW_SCAN_RESULTS = 34"
definition CTRL_CMD_GETFAMILY :: u8 where [nl_consts]: "CTRL_CMD_GETFAMILY = 3"

definition NL80211_BSS_STATUS_AUTHENTICATED :: u32 where
  [nl_consts]: "NL80211_BSS_STATUS_AUTHENTICATED = 0"
definition NL80211_BSS_STATUS_ASSOCIATED :: u32 where
  [nl_consts]: "NL80211_BSS_STATUS_ASSOCIATED = 1"
definition NL80211_BSS_STATUS_IBSS_JOINED :: u32 where
  [nl_consts]: "NL80211_BSS_STATUS_IBSS_JOINED = 2"

section \<open>The validation tables\<close>

definition NL80211_VALIDATION :: "attribute_validation list" where
  "NL80211_VALIDATION =
     [\<lparr>av_attr = CTRL_ATTR_FAMILY_ID, av_type = MNL_TYPE_U16, av_len = 0\<rparr>,
      \<lparr>av_attr = CTRL_ATTR_MCAST_GROUPS, av_type = MNL_TYPE_NESTED, av_len = 0\<rparr>]"

definition NL80211_MCAST_GROUPS_VALIDATION :: "attribute_validation list" where
  "NL80211_MCAST_GROUPS_VALIDATION =
     [\<lparr>av_attr = CTRL_ATTR_MCAST_GRP_ID, av_type = MNL_TYPE_U32, av_len = 0\<rparr>,
      \<lparr>av_attr = CTRL_ATTR_MCAST_GRP_NAME, av_type = MNL_TYPE_STRING, av_len = 0\<rparr>]"

definition NL80211_BSS_VALIDATION :: "attribute_validation list" where
  "NL80211_BSS_VALIDATION =
     [\<lparr>av_attr = NL80211_BSS_BSSID, av_type = MNL_TYPE_BINARY, av_len = 6\<rparr>,
      \<lparr>av_attr = NL80211_BSS_FREQUENCY, av_type = MNL_TYPE_U32, av_len = 0\<rparr>,
      \<lparr>av_attr = NL80211_BSS_INFORMATION_ELEMENTS, av_type = MNL_TYPE_BINARY, av_len = 0\<rparr>,
      \<lparr>av_attr = NL80211_BSS_STATUS, av_type = MNL_TYPE_U32, av_len = 0\<rparr>,
      \<lparr>av_attr = NL80211_BSS_SIGNAL_MBM, av_type = MNL_TYPE_U32, av_len = 0\<rparr>,
      \<lparr>av_attr = NL80211_BSS_SEEN_MS_AGO, av_type = MNL_TYPE_U32, av_len = 0\<rparr>]"

definition NL80211_NEW_SCAN_RESULTS_VALIDATION :: "attribute_validation list" where
  "NL80211_NEW_SCAN_RESULTS_VALIDATION =
     [\<lparr>av_attr = NL80211_ATTR_IFINDEX, av_type = MNL_TYPE_U32, av_len = 0\<rparr>,
      \<lparr>av_attr = NL80211_ATTR_SCAN_SSIDS, av_type = MNL_TYPE_NESTED, av_len = 0\<rparr>,
      \<lparr>av_attr = NL80211_ATTR_BSS, av_type = MNL_TYPE_NESTED, av_len = 0\<rparr>]"

definition NL80211_CMD_NEW_STATION_VALIDATION :: "attribute_validation list" where
  "NL80211_CMD_NEW_STATION_VALIDATION =
     [\<lparr>av_attr = NL80211_ATTR_STA_INFO, av_type = MNL_TYPE_NESTED, av_len = 0\<rparr>]"

definition NL80211_STA_INFO_VALIDATION :: "attribute_validation list" where
  "NL80211_STA_INFO_VALIDATION =
     [\<lparr>av_attr = NL80211_STA_INFO_SIGNAL, av_type = MNL_TYPE_U8, av_len = 0\<rparr>,
      \<lparr>av_attr = NL80211_STA_INFO_RX_PACKETS, av_type = MNL_TYPE_U32, av_len = 0\<rparr>,
      \<lparr>av_attr = NL80211_STA_INFO_TX_PACKETS, av_type = MNL_TYPE_U32, av_len = 0\<rparr>]"

text \<open>What every handler does first: an empty array \<^verbatim>\<open>tb\<close>, a \<^verbatim>\<open>validation_data\<close>
  around it, the parse with \<^verbatim>\<open>validate\<close>; afterwards it looks only at \<^verbatim>\<open>tb\<close>, the
  result of the parse is not read.\<close>

definition empty_vd :: "nat \<Rightarrow> attribute_validation list \<Rightarrow> validation_data" where
  "empty_vd mx tab = \<lparr>attribute_table = Map.empty, attribute_length = mx, validation = tab\<rparr>"

section \<open>Family and multicast group resolution\<close>

text \<open>
  \<^verbatim>\<open>strcmp(name, lit) == 0\<close> for a string literal: the bytes of the payload are compared
  one by one with the literal and then with its terminator. A payload that ends before
  a difference or the terminator is found is read past its end.
\<close>

fun strcmp_literal :: "u8 list \<Rightarrow> u8 list \<Rightarrow> fault + bool" where
  "strcmp_literal [] lit = Inl OutOfBoundsRead"
| "strcmp_literal (b # bs) [] = Inr (b = 0)"
| "strcmp_literal (b # bs) (c # cs) = (if b = c then strcmp_literal bs cs else Inr False)"

definition scan_literal :: "u8 list" where
  "scan_literal = [0x73, 0x63, 0x61, 0x6E]"

text \<open>The body of the loop of \<^verbatim>\<open>parse_CTRL_ATTR_MCAST_GROUPS\<close> runs on each nested group;
  \<open>Inr False\<close> is the early \<^verbatim>\<open>return false\<close>.\<close>

fun parse_mcast_groups_loop ::
  "nlattr list \<Rightarrow> context_CTRL_CMD_GETFAMILY \<Rightarrow> fault + (bool \<times> context_CTRL_CMD_GETFAMILY)" where
  "parse_mcast_groups_loop [] ctx = Inr (True, ctx)"
| "parse_mcast_groups_loop (pos # rest) ctx =
     (let tb = attribute_table (snd (mnl_attr_parse_nested pos validate
                 (empty_vd CTRL_ATTR_MCAST_GRP_MAX NL80211_MCAST_GROUPS_VALIDATION))) in
      case tb CTRL_ATTR_MCAST_GRP_NAME of
        None \<Rightarrow> parse_mcast_groups_loop rest ctx
      | Some name \<Rightarrow>
          (case strcmp_literal (nla_payload name) scan_literal of
             Inl f \<Rightarrow> Inl f
           | Inr False \<Rightarrow> parse_mcast_groups_loop rest ctx
           | Inr True \<Rightarrow>
               (case tb CTRL_ATTR_MCAST_GRP_ID of
                  Some gid \<Rightarrow>
                    parse_mcast_groups_loop rest
                      (ctx\<lparr>id_NL80211_MULTICAST_GROUP_SCAN := mnl_attr_get_u32 gid\<rparr>)
                | None \<Rightarrow> Inr (False, ctx))))"

definition parse_CTRL_ATTR_MCAST_GROUPS ::
  "nlattr \<Rightarrow> context_CTRL_CMD_GETFAMILY \<Rightarrow> fault + (bool \<times> context_CTRL_CMD_GETFAMILY)" where
  "parse_CTRL_ATTR_MCAST_GROUPS nested ctx =
     parse_mcast_groups_loop (mnl_attr_for_each (nla_payload nested)) ctx"

definition handle_CTRL_CMD_GETFAMILY ::
  "nlmsghdr \<Rightarrow> netlink_channel \<Rightarrow> context_CTRL_CMD_GETFAMILY \<Rightarrow>
   fault + (int \<times> netlink_channel \<times> context_CTRL_CMD_GETFAMILY)" where
  "handle_CTRL_CMD_GETFAMILY nlh channel ctx =
     (let tb = attribute_table (snd (mnl_attr_parse nlh validate
                 (empty_vd CTRL_ATTR_MAX NL80211_VALIDATION))) in
      case tb CTRL_ATTR_FAMILY_ID of
        None \<Rightarrow> Inr (MNL_CB_ERROR, channel, ctx)
      | Some fid \<Rightarrow>
          (let channel' = channel\<lparr>nl80211_id := mnl_attr_get_u16 fid\<rparr> in
           case tb CTRL_ATTR_MCAST_GROUPS of
             None \<Rightarrow> Inr (MNL_CB_OK, channel', ctx)
           | Some groups \<Rightarrow>
               (case parse_CTRL_ATTR_MCAST_GROUPS groups ctx of
                  Inl f \<Rightarrow> Inl f
                | Inr (ok, ctx') \<Rightarrow>
                    if \<not> ok then Inr (MNL_CB_ERROR, channel', ctx')
                    else Inr (MNL_CB_OK, channel', ctx'))))"


section \<open>Scan results and station records\<close>

text \<open>
  Modelled from the spec: \<^verbatim>\<open>wifi_scan.h\<close> is not among the sources. It declares the two
  records, the lengths of the BSSID (6 bytes) and of the SSID array (32 bytes and the
  terminator), and the status enumeration None, Authenticated, Associated, IbssJoined.
  The status is kept as the 32-bit value the code stores (line 791 casts the value
  of the attribute); None is -1, the other three are the values of nl80211.
\<close>

definition BSSID_LENGTH :: nat where "BSSID_LENGTH = 6"
definition SSID_MAX_LENGTH_WITH_NULL :: nat where "SSID_MAX_LENGTH_WITH_NULL = 33"
definition BSS_NONE :: u32 where "BSS_NONE = - 1"

record bss_info =
  bssid :: "u8 list"
  frequency :: u32
  ssid :: "u8 list"
  status :: u32
  signal_mbm :: u32
  seen_ms_ago :: u32

record station_info =
  sta_bssid :: "u8 list"
  sta_ssid :: "u8 list"
  sta_status :: u32
  signal_dbm :: u8
  rx_packets :: u32
  tx_packets :: u32

record context_NL80211_CMD_NEW_SCAN_RESULTS =
  bss_infos :: "bss_info list"
  bss_infos_length :: int
  scanned :: int

record context_NL80211_CMD_NEW_STATION =
  station :: station_info

record context_NL80211_MULTICAST_GROUP_SCAN =
  new_scan_results :: int
  scan_triggered :: int

subsection \<open>The two binary sub-parsers\<close>

text \<open>\<^verbatim>\<open>memset\<close>, \<^verbatim>\<open>memcpy\<close> and \<^verbatim>\<open>strncpy\<close> on a destination array: the first \<open>n\<close>
  bytes are written, the others stay. \<^verbatim>\<open>strncpy\<close> stops reading at a zero byte and
  fills with zeros. Every call has at least \<open>n\<close> source bytes.\<close>

definition memset :: "u8 list \<Rightarrow> u8 \<Rightarrow> nat \<Rightarrow> u8 list" where
  "memset dst c n = replicate n c @ drop n dst"

definition memcpy :: "u8 list \<Rightarrow> u8 list \<Rightarrow> nat \<Rightarrow> u8 list" where
  "memcpy dst src n = take n src @ drop n dst"

definition strncpy :: "u8 list \<Rightarrow> u8 list \<Rightarrow> nat \<Rightarrow> u8 list" where
  "strncpy dst src n =
     (let s = takeWhile (\<lambda>b. b \<noteq> 0) (take n src)
      in s @ replicate (n - length s) 0 @ drop n dst)"

text \<open>The content of a character array as a zero-terminated string.\<close>

definition c_string :: "u8 list \<Rightarrow> u8 list" where
  "c_string bs = takeWhile (\<lambda>b. b \<noteq> 0) bs"

text \<open>The messages are those passed to the log function; both parsers return them with
  their output.\<close>

definition bssid_log :: string where
  "bssid_log = ''BSSID length != 6, ignoring''"

definition ssid_log :: string where
  "ssid_log = ''SSID len 0 or payload not starting from 0 or payload length > 32 or payload length > length-2!''"

definition parse_NL80211_BSS_BSSID :: "nlattr \<Rightarrow> u8 list \<Rightarrow> u8 list \<times> string list" where
  "parse_NL80211_BSS_BSSID attr bssid_out =
     (let payload = nla_payload attr; len = mnl_attr_get_payload_len attr in
      if len \<noteq> BSSID_LENGTH then (memset bssid_out 0 BSSID_LENGTH, [bssid_log])
      else (memcpy bssid_out payload BSSID_LENGTH, []))"

text \<open>
  The payload is read through \<^verbatim>\<open>const char *\<close>. Whether plain \<^verbatim>\<open>char\<close> is signed is the
  compiler's choice (signed on x86, unsigned on ARM Linux), so it is a parameter.
\<close>

definition char_value :: "bool \<Rightarrow> u8 \<Rightarrow> int" where
  "char_value char_signed b = (if char_signed then sint b else uint b)"

text \<open>
  The test of line 801 is evaluated from the left: \<^verbatim>\<open>payload[1]\<close> is read whenever the
  length is not 0 and the first byte is 0, also in a payload of one byte. A negative
  \<^verbatim>\<open>ssid_len\<close> passes both comparisons and is then the count of \<^verbatim>\<open>strncpy\<close> and the
  index of the terminator.
\<close>

definition parse_NL80211_BSS_INFORMATION_ELEMENTS ::
  "bool \<Rightarrow> nlattr \<Rightarrow> u8 list \<Rightarrow> fault + (u8 list \<times> string list)" where
  "parse_NL80211_BSS_INFORMATION_ELEMENTS char_signed attr SSID_OUT =
     (let payload = nla_payload attr; len = int (mnl_attr_get_payload_len attr) in
      if len = 0 then Inr (SSID_OUT[0 := 0], [ssid_log])
      else if char_value char_signed (payload ! 0) \<noteq> 0 then Inr (SSID_OUT[0 := 0], [ssid_log])
      else if len < 2 then Inl OutOfBoundsRead
      else if int SSID_MAX_LENGTH_WITH_NULL \<le> char_value char_signed (payload ! 1)
              \<or> len - 2 < char_value char_signed (payload ! 1)
        then Inr (SSID_OUT[0 := 0], [ssid_log])
      else
        (let ssid_len = char_value char_signed (payload ! 1) in
         if ssid_len < 0 then Inl SsidOverrun
         else Inr ((strncpy SSID_OUT (drop 2 payload) (nat ssid_len))[nat ssid_len := 0], [])))"

subsection \<open>One BSS of the dump\<close>

text \<open>Lines 747 to 757: the nested attributes are validated into a fresh table, and the
  status is that of the status attribute, \<^verbatim>\<open>BSS_NONE\<close> without one.\<close>

definition bss_table :: "nlattr \<Rightarrow> (nat \<Rightarrow> nlattr option)" where
  "bss_table nested =
     attribute_table (snd (mnl_attr_parse_nested nested validate
       (empty_vd NL80211_BSS_MAX NL80211_BSS_VALIDATION)))"

definition bss_status :: "(nat \<Rightarrow> nlattr option) \<Rightarrow> u32" where
  "bss_status tb =
     (case tb NL80211_BSS_STATUS of None \<Rightarrow> BSS_NONE | Some a \<Rightarrow> mnl_attr_get_u32 a)"

text \<open>Lines 776 to 791: the fields of the record \<^verbatim>\<open>bss\<close> points to are written from
  the attributes that the table holds, in this order, and the status always.\<close>

definition bss_fill ::
  "bool \<Rightarrow> (nat \<Rightarrow> nlattr option) \<Rightarrow> u32 \<Rightarrow> bss_info \<Rightarrow> fault + bss_info" where
  "bss_fill char_signed tb st bss =
     (let b1 = (case tb NL80211_BSS_BSSID of
                  None \<Rightarrow> bss
                | Some a \<Rightarrow> bss\<lparr>bssid := fst (parse_NL80211_BSS_BSSID a (bssid bss))\<rparr>);
          b2 = (case tb NL80211_BSS_FREQUENCY of
                  None \<Rightarrow> b1
                | Some a \<Rightarrow> b1\<lparr>frequency := mnl_attr_get_u32 a\<rparr>)
      in case (case tb NL80211_BSS_INFORMATION_ELEMENTS of
                 None \<Rightarrow> Inr b2
               | Some a \<Rightarrow>
                   (case parse_NL80211_BSS_INFORMATION_ELEMENTS char_signed a (ssid b2) of
                      Inl f \<Rightarrow> Inl f
                    | Inr (s, _) \<Rightarrow> Inr (b2\<lparr>ssid := s\<rparr>))) of
           Inl f \<Rightarrow> Inl f
         | Inr b3 \<Rightarrow>
             (let b4 = (case tb NL80211_BSS_SIGNAL_MBM of
                          None \<Rightarrow> b3
                        | Some a \<Rightarrow> b3\<lparr>signal_mbm := mnl_attr_get_u32 a\<rparr>);
                  b5 = (case tb NL80211_BSS_SEEN_MS_AGO of
                          None \<Rightarrow> b4
                        | Some a \<Rightarrow> b4\<lparr>seen_ms_ago := mnl_attr_get_u32 a\<rparr>)
              in Inr (b5\<lparr>status := st\<rparr>)))"

text \<open>The storage of the caller is a list of records; \<^verbatim>\<open>bss_infos + i\<close> is slot \<open>i\<close>.
  An access to a slot that the storage does not have is a fault.\<close>

definition slot_read :: "bss_info list \<Rightarrow> int \<Rightarrow> fault + bss_info" where
  "slot_read buf i =
     (if 0 \<le> i \<and> i < int (length buf) then Inr (buf ! nat i) else Inl SlotOutOfBounds)"

definition slot_write :: "bss_info list \<Rightarrow> int \<Rightarrow> bss_info \<Rightarrow> fault + bss_info list" where
  "slot_write buf i v =
     (if 0 \<le> i \<and> i < int (length buf) then Inr (buf[nat i := v]) else Inl SlotOutOfBounds)"

text \<open>The condition of line 760.\<close>

definition associated_or_joined :: "u32 \<Rightarrow> bool" where
  "associated_or_joined st \<longleftrightarrow>
     st = NL80211_BSS_STATUS_ASSOCIATED \<or> st = NL80211_BSS_STATUS_IBSS_JOINED"

text \<open>\<^verbatim>\<open>++scan_results->scanned\<close> on a C \<^verbatim>\<open>int\<close>.\<close>

definition INT_MAX :: int where "INT_MAX = 2147483647"

definition count_scanned ::
  "context_NL80211_CMD_NEW_SCAN_RESULTS \<Rightarrow> fault + context_NL80211_CMD_NEW_SCAN_RESULTS" where
  "count_scanned sr =
     (if scanned sr = INT_MAX then Inl SignedOverflow else Inr (sr\<lparr>scanned := scanned sr + 1\<rparr>))"

text \<open>
  \<^verbatim>\<open>parse_NL80211_ATTR_BSS\<close>. The pointer \<^verbatim>\<open>bss\<close> is the index of its slot: \<open>scanned\<close>
  at first, 0 for an associated or joined BSS, so \<^verbatim>\<open>bss != scan_results->bss_infos\<close> is
  \<open>bss \<noteq> 0\<close>. The \<^verbatim>\<open>memcpy\<close> of line 765 reads slot 0 and writes slot \<open>scanned\<close>.
\<close>

definition parse_NL80211_ATTR_BSS ::
  "bool \<Rightarrow> nlattr \<Rightarrow> context_NL80211_CMD_NEW_SCAN_RESULTS \<Rightarrow>
   fault + context_NL80211_CMD_NEW_SCAN_RESULTS" where
  "parse_NL80211_ATTR_BSS char_signed nested scan_results =
     (let tb = bss_table nested;
          st = bss_status tb;
          associated = associated_or_joined st;
          bss = (if associated then 0 else scanned scan_results)
      in case (if associated \<and> 0 < scanned scan_results
                   \<and> scanned scan_results < bss_infos_length scan_results
               then (case slot_read (bss_infos scan_results) 0 of
                       Inl f \<Rightarrow> Inl f
                     | Inr first \<Rightarrow>
                         slot_write (bss_infos scan_results) (scanned scan_results) first)
               else Inr (bss_infos scan_results)) of
           Inl f \<Rightarrow> Inl f
         | Inr buf \<Rightarrow>
             if bss_infos_length scan_results = 0
                \<or> (bss_infos_length scan_results \<le> scanned scan_results \<and> bss \<noteq> 0)
             then count_scanned (scan_results\<lparr>bss_infos := buf\<rparr>)
             else
               (case slot_read buf bss of
                  Inl f \<Rightarrow> Inl f
                | Inr old \<Rightarrow>
                    (case bss_fill char_signed tb st old of
                       Inl f \<Rightarrow> Inl f
                     | Inr new \<Rightarrow>
                         (case slot_write buf bss new of
                            Inl f \<Rightarrow> Inl f
                          | Inr buf' \<Rightarrow> count_scanned (scan_results\<lparr>bss_infos := buf'\<rparr>)))))"

text \<open>The entries of a dump in the order of arrival: one call for each.\<close>

fun bss_dump ::
  "bool \<Rightarrow> nlattr list \<Rightarrow> context_NL80211_CMD_NEW_SCAN_RESULTS \<Rightarrow>
   fault + context_NL80211_CMD_NEW_SCAN_RESULTS" where
  "bss_dump char_signed [] sr = Inr sr"
| "bss_dump char_signed (e # es) sr =
     (case parse_NL80211_ATTR_BSS char_signed e sr of
        Inl f \<Rightarrow> Inl f
      | Inr sr' \<Rightarrow> bss_dump char_signed es sr')"

definition handle_NL80211_CMD_NEW_SCAN_RESULTS ::
  "bool \<Rightarrow> nlmsghdr \<Rightarrow> context_NL80211_CMD_NEW_SCAN_RESULTS \<Rightarrow>
   fault + (int \<times> context_NL80211_CMD_NEW_SCAN_RESULTS)" where
  "handle_NL80211_CMD_NEW_SCAN_RESULTS char_signed nlh scan_results =
     (if genl_cmd nlh \<noteq> NL80211_CMD_NEW_SCAN_RESULTS then Inr (MNL_CB_OK, scan_results)
      else
        (let tb = attribute_table (snd (mnl_attr_parse nlh validate
                    (empty_vd NL80211_ATTR_MAX NL80211_NEW_SCAN_RESULTS_VALIDATION))) in
         case tb NL80211_ATTR_BSS of
           None \<Rightarrow> Inr (MNL_CB_OK, scan_results)
         | Some nested \<Rightarrow>
             (case parse_NL80211_ATTR_BSS char_signed nested scan_results of
                Inl f \<Rightarrow> Inl f
              | Inr sr \<Rightarrow> Inr (MNL_CB_OK, sr))))"

subsection \<open>The station reply\<close>

definition sta_info_table :: "nlattr \<Rightarrow> (nat \<Rightarrow> nlattr option)" where
  "sta_info_table nested =
     attribute_table (snd (mnl_attr_parse_nested nested validate
       (empty_vd NL80211_STA_INFO_MAX NL80211_STA_INFO_VALIDATION)))"

definition parse_NL80211_ATTR_STA_INFO ::
  "nlattr \<Rightarrow> context_NL80211_CMD_NEW_STATION \<Rightarrow> context_NL80211_CMD_NEW_STATION" where
  "parse_NL80211_ATTR_STA_INFO nested station_results =
     (let tb = sta_info_table nested;
          s0 = station station_results;
          s1 = (case tb NL80211_STA_INFO_SIGNAL of
                  None \<Rightarrow> s0
                | Some a \<Rightarrow> s0\<lparr>signal_dbm := mnl_attr_get_u8 a\<rparr>);
          s2 = (case tb NL80211_STA_INFO_RX_PACKETS of
                  None \<Rightarrow> s1
                | Some a \<Rightarrow> s1\<lparr>rx_packets := mnl_attr_get_u32 a\<rparr>);
          s3 = (case tb NL80211_STA_INFO_TX_PACKETS of
                  None \<Rightarrow> s2
                | Some a \<Rightarrow> s2\<lparr>tx_packets := mnl_attr_get_u32 a\<rparr>)
      in station_results\<lparr>station := s3\<rparr>)"

definition handle_NL80211_CMD_NEW_STATION ::
  "nlmsghdr \<Rightarrow> context_NL80211_CMD_NEW_STATION \<Rightarrow> int \<times> context_NL80211_CMD_NEW_STATION" where
  "handle_NL80211_CMD_NEW_STATION nlh station_results =
     (if genl_cmd nlh \<noteq> NL80211_CMD_NEW_STATION then (MNL_CB_OK, station_results)
      else
        (let tb = attribute_table (snd (mnl_attr_parse nlh validate
                    (empty_vd NL80211_ATTR_MAX NL80211_CMD_NEW_STATION_VALIDATION))) in
         case tb NL80211_ATTR_STA_INFO of
           None \<Rightarrow> (MNL_CB_OK, station_results)
         | Some nested \<Rightarrow> (MNL_CB_OK, parse_NL80211_ATTR_STA_INFO nested station_results)))"

subsection \<open>Scan notifications\<close>

definition handle_NL80211_MULTICAST_GROUP_SCAN ::
  "nlmsghdr \<Rightarrow> context_NL80211_MULTICAST_GROUP_SCAN \<Rightarrow>
   int \<times> context_NL80211_MULTICAST_GROUP_SCAN" where
  "handle_NL80211_MULTICAST_GROUP_SCAN nlh context =
     (if genl_cmd nlh = NL80211_CMD_TRIGGER_SCAN
      then (MNL_CB_OK, context\<lparr>scan_triggered := 1\<rparr>)
      else if genl_cmd nlh = NL80211_CMD_NEW_SCAN_RESULTS
      then (MNL_CB_OK,
            if nlmsg_pid nlh = 0 \<and> nlmsg_seq nlh = 0
            then context\<lparr>new_scan_results := 1\<rparr> else context)
      else (MNL_CB_OK, context))"

section \<open>Transport\<close>

subsection \<open>The socket\<close>

definition EWOULDBLOCK :: int where "EWOULDBLOCK = 11"
definition EINPROGRESS :: int where "EINPROGRESS = 115"

text \<open>
  \<^verbatim>\<open>mnl_socket_recvfrom\<close>: the next event of the script. With nothing left to receive a
  non-blocking socket fails with \<^verbatim>\<open>EWOULDBLOCK\<close> and a blocking one never returns.
\<close>

definition mnl_socket_recvfrom :: "mnl_socket \<Rightarrow> fault + (recv_event \<times> mnl_socket)" where
  "mnl_socket_recvfrom s =
     (case inbox s of
        [] \<Rightarrow> if nonblocking s then Inr (RecvFail EWOULDBLOCK, s) else Inl BlocksForever
      | ev # evs \<Rightarrow> Inr (ev, s\<lparr>inbox := evs\<rparr>))"

text \<open>\<^verbatim>\<open>mnl_socket_sendto\<close> and \<^verbatim>\<open>fcntl\<close>: \<open>True\<close> when the call succeeds; a call beyond
  the script succeeds.\<close>

definition mnl_socket_sendto :: "mnl_socket \<Rightarrow> bool \<times> mnl_socket" where
  "mnl_socket_sendto s =
     (case sendto_fails s of [] \<Rightarrow> (True, s) | f # fs \<Rightarrow> (\<not> f, s\<lparr>sendto_fails := fs\<rparr>))"

definition fcntl :: "mnl_socket \<Rightarrow> bool \<times> mnl_socket" where
  "fcntl s =
     (case fcntl_fails s of [] \<Rightarrow> (True, s) | f # fs \<Rightarrow> (\<not> f, s\<lparr>fcntl_fails := fs\<rparr>))"

text \<open>\<^verbatim>\<open>set_channel_non_blocking\<close> and \<^verbatim>\<open>set_channel_blocking\<close>: \<^verbatim>\<open>F_GETFL\<close>, then
  \<^verbatim>\<open>F_SETFL\<close> with the flag set or cleared.\<close>

definition set_blocking_mode :: "bool \<Rightarrow> netlink_channel \<Rightarrow> fault + (bool \<times> netlink_channel)" where
  "set_blocking_mode nb channel =
     (case nl channel of
        None \<Rightarrow> Inl NullSocket
      | Some s \<Rightarrow>
          (case fcntl s of
             (False, s1) \<Rightarrow> Inr (False, channel\<lparr>nl := Some s1\<rparr>)
           | (True, s1) \<Rightarrow>
               (case fcntl s1 of
                  (False, s2) \<Rightarrow> Inr (False, channel\<lparr>nl := Some s2\<rparr>)
                | (True, s2) \<Rightarrow> Inr (True, channel\<lparr>nl := Some (s2\<lparr>nonblocking := nb\<rparr>)\<rparr>))))"

definition set_channel_non_blocking :: "netlink_channel \<Rightarrow> fault + (bool \<times> netlink_channel)" where
  "set_channel_non_blocking channel = set_blocking_mode True channel"

definition set_channel_blocking :: "netlink_channel \<Rightarrow> fault + (bool \<times> netlink_channel)" where
  "set_channel_blocking channel = set_blocking_mode False channel"

definition channel_recv :: "netlink_channel \<Rightarrow> fault + (recv_event \<times> netlink_channel)" where
  "channel_recv channel =
     (case nl channel of
        None \<Rightarrow> Inl NullSocket
      | Some s \<Rightarrow>
          (case mnl_socket_recvfrom s of
             Inl f \<Rightarrow> Inl f
           | Inr (ev, s') \<Rightarrow> Inr (ev, channel\<lparr>nl := Some s'\<rparr>)))"

text \<open>The number of events the socket of a channel has yet to deliver.\<close>

definition pending :: "netlink_channel \<Rightarrow> nat" where
  "pending channel = (case nl channel of None \<Rightarrow> 0 | Some s \<Rightarrow> length (inbox s))"

subsection \<open>Dispatch of a datagram\<close>

definition NLMSG_NOOP :: u16 where "NLMSG_NOOP = 1"
definition NLMSG_ERROR :: u16 where "NLMSG_ERROR = 2"
definition NLMSG_DONE :: u16 where "NLMSG_DONE = 3"
definition NLMSG_OVERRUN :: u16 where "NLMSG_OVERRUN = 4"
definition NLMSG_MIN_TYPE :: u16 where "NLMSG_MIN_TYPE = 16"
definition NLM_F_DUMP_INTR :: u16 where "NLM_F_DUMP_INTR = 16"

text \<open>\<^verbatim>\<open>mnl_nlmsg_portid_ok\<close> and \<^verbatim>\<open>mnl_nlmsg_seq_ok\<close>: a zero on either side matches.\<close>

definition mnl_nlmsg_portid_ok :: "nlmsghdr \<Rightarrow> u32 \<Rightarrow> bool" where
  "mnl_nlmsg_portid_ok nlh p \<longleftrightarrow> (if nlmsg_pid nlh \<noteq> 0 \<and> p \<noteq> 0 then nlmsg_pid nlh = p else True)"

definition mnl_nlmsg_seq_ok :: "nlmsghdr \<Rightarrow> u32 \<Rightarrow> bool" where
  "mnl_nlmsg_seq_ok nlh sq \<longleftrightarrow> (if nlmsg_seq nlh \<noteq> 0 \<and> sq \<noteq> 0 then nlmsg_seq nlh = sq else True)"

text \<open>The default control callbacks of libmnl, \<open>None\<close> for a type without one: a no-op
  continues, an error message stops the run (as success when its code is 0), the end
  of a dump stops it.\<close>

definition mnl_cb_control :: "nlmsghdr \<Rightarrow> int option" where
  "mnl_cb_control nlh =
     (if nlmsg_type nlh = NLMSG_NOOP \<or> nlmsg_type nlh = NLMSG_OVERRUN then Some MNL_CB_OK
      else if nlmsg_type nlh = NLMSG_ERROR
        then Some (if nlmsgerr_error nlh = 0 then MNL_CB_STOP else MNL_CB_ERROR)
      else if nlmsg_type nlh = NLMSG_DONE then Some MNL_CB_STOP
      else None)"

text \<open>
  \<^verbatim>\<open>mnl_cb_run\<close> of libmnl on the messages of one datagram: a message from another port
  or of another sequence number, or of an interrupted dump, ends the run with -1; a data
  message goes to the callback, a control message to its default callback; a result
  \<open>\<le> MNL_CB_STOP\<close> ends the run.
\<close>

fun mnl_cb_run_loop ::
  "int \<Rightarrow> nlmsghdr list \<Rightarrow> u32 \<Rightarrow> u32 \<Rightarrow> (nlmsghdr \<Rightarrow> 'c \<Rightarrow> fault + (int \<times> 'c)) \<Rightarrow> 'c \<Rightarrow>
   fault + (int \<times> 'c)" where
  "mnl_cb_run_loop ret [] sq p cb c = Inr (ret, c)"
| "mnl_cb_run_loop ret (nlh # rest) sq p cb c =
     (if \<not> mnl_nlmsg_portid_ok nlh p then Inr (- 1, c)
      else if \<not> mnl_nlmsg_seq_ok nlh sq then Inr (- 1, c)
      else if nlmsg_flags nlh AND NLM_F_DUMP_INTR \<noteq> 0 then Inr (- 1, c)
      else if NLMSG_MIN_TYPE \<le> nlmsg_type nlh then
        (case cb nlh c of
           Inl f \<Rightarrow> Inl f
         | Inr (r, c') \<Rightarrow>
             if r \<le> MNL_CB_STOP then Inr (r, c') else mnl_cb_run_loop r rest sq p cb c')
      else
        (case mnl_cb_control nlh of
           None \<Rightarrow> mnl_cb_run_loop ret rest sq p cb c
         | Some r \<Rightarrow> if r \<le> MNL_CB_STOP then Inr (r, c) else mnl_cb_run_loop r rest sq p cb c))"

definition mnl_cb_run ::
  "nlmsghdr list \<Rightarrow> u32 \<Rightarrow> u32 \<Rightarrow> (nlmsghdr \<Rightarrow> 'c \<Rightarrow> fault + (int \<times> 'c)) \<Rightarrow> 'c \<Rightarrow>
   fault + (int \<times> 'c)" where
  "mnl_cb_run msgs sq p cb c = mnl_cb_run_loop MNL_CB_OK msgs sq p cb c"

subsection \<open>Requests\<close>

text \<open>\<^verbatim>\<open>mnl_attr_put_u32\<close> and \<^verbatim>\<open>mnl_attr_put\<close> with six bytes: the attribute is appended
  to the message, padded to four bytes.\<close>

definition le_bytes32 :: "u32 \<Rightarrow> u8 list" where
  "le_bytes32 w = [ucast w, ucast (drop_bit 8 w), ucast (drop_bit 16 w), ucast (drop_bit 24 w)]"

definition mnl_attr_put_u32 :: "nlmsghdr \<Rightarrow> nat \<Rightarrow> u32 \<Rightarrow> nlmsghdr" where
  "mnl_attr_put_u32 nlh ty v =
     nlh\<lparr>genl_attrs := genl_attrs nlh @ [8, 0, word_of_nat ty, 0] @ le_bytes32 v\<rparr>"

definition NL80211_ATTR_MAC :: nat where "NL80211_ATTR_MAC = 6"

definition mnl_attr_put_mac :: "nlmsghdr \<Rightarrow> u8 list \<Rightarrow> nlmsghdr" where
  "mnl_attr_put_mac nlh mac =
     nlh\<lparr>genl_attrs := genl_attrs nlh @ [10, 0, word_of_nat NL80211_ATTR_MAC, 0]
                           @ take 6 mac @ [0, 0]\<rparr>"

definition NLM_F_REQUEST :: u16 where "NLM_F_REQUEST = 1"
definition NLM_F_ACK :: u16 where "NLM_F_ACK = 4"
definition NLM_F_DUMP :: u16 where "NLM_F_DUMP = 0x300"

text \<open>\<^verbatim>\<open>prepare_nl_message\<close>: the header with the sequence number of the channel, and the
  generic netlink header with the command and version 1.\<close>

definition prepare_nl_message :: "u16 \<Rightarrow> u16 \<Rightarrow> u8 \<Rightarrow> netlink_channel \<Rightarrow> nlmsghdr" where
  "prepare_nl_message ty flags cmd channel =
     \<lparr>nlmsg_type = ty, nlmsg_flags = flags, nlmsg_seq = sequence channel, nlmsg_pid = 0,
      genl_cmd = cmd, genl_version = 1, genl_attrs = [], nlmsgerr_error = 0\<rparr>"

definition send_nl_message :: "nlmsghdr \<Rightarrow> netlink_channel \<Rightarrow> fault + (bool \<times> netlink_channel)" where
  "send_nl_message nlh channel =
     (case nl channel of
        None \<Rightarrow> Inl NullSocket
      | Some s \<Rightarrow> (case mnl_socket_sendto s of (ok, s') \<Rightarrow> Inr (ok, channel\<lparr>nl := Some s'\<rparr>)))"

subsection \<open>Receive and dispatch\<close>

text \<open>The loop of \<^verbatim>\<open>receive_nl_message\<close>: it ends when a receive returns no byte or
  fails, or when the run over a datagram returns a value \<open>\<le> 0\<close>.\<close>

function receive_loop ::
  "netlink_channel \<Rightarrow> (nlmsghdr \<Rightarrow> 'c \<Rightarrow> fault + (int \<times> 'c)) \<Rightarrow> 'c \<Rightarrow>
   fault + (int \<times> netlink_channel \<times> 'c)" where
  "receive_loop channel cb c =
     (case channel_recv channel of
        Inl f \<Rightarrow> Inl f
      | Inr (RecvFail e, channel') \<Rightarrow> Inr (- 1, channel', c)
      | Inr (RecvZero, channel') \<Rightarrow> Inr (0, channel', c)
      | Inr (RecvData msgs, channel') \<Rightarrow>
          (case nl channel of
             None \<Rightarrow> Inl NullSocket
           | Some s \<Rightarrow>
               (case mnl_cb_run msgs (sequence channel) (portid s) cb c of
                  Inl f \<Rightarrow> Inl f
                | Inr (ret, c') \<Rightarrow>
                    if ret \<le> 0 then Inr (ret, channel', c')
                    else receive_loop channel' cb c')))"
  by pat_completeness auto
termination
  by (relation "measure (\<lambda>(channel, cb, c). pending channel)")
    (auto simp: channel_recv_def mnl_socket_recvfrom_def pending_def
      split: option.splits list.splits if_splits)

declare receive_loop.simps [simp del]

definition receive_nl_message ::
  "netlink_channel \<Rightarrow> (nlmsghdr \<Rightarrow> 'c \<Rightarrow> fault + (int \<times> 'c)) \<Rightarrow> 'c \<Rightarrow>
   fault + (int \<times> netlink_channel \<times> 'c)" where
  "receive_nl_message channel cb c =
     (case receive_loop channel cb c of
        Inl f \<Rightarrow> Inl f
      | Inr (ret, channel', c') \<Rightarrow> Inr (ret, channel'\<lparr>sequence := sequence channel' + 1\<rparr>, c'))"

section \<open>Channels and the public operations\<close>

record wifi_scan =
  notification_channel :: netlink_channel
  command_channel :: netlink_channel

subsection \<open>Initialisation of a channel\<close>



subsection \<open>Commands\<close>

text \<open>\<^verbatim>\<open>trigger_scan\<close>, \<^verbatim>\<open>get_scan\<close> and \<^verbatim>\<open>get_station\<close>: the request is prepared and
  sent; a failed send returns \<^verbatim>\<open>MNL_CB_ERROR\<close> at once, otherwise the result is that of
  \<^verbatim>\<open>receive_nl_message\<close>.\<close>

definition trigger_scan ::
  "bool \<Rightarrow> netlink_channel \<Rightarrow> context_NL80211_CMD_NEW_SCAN_RESULTS \<Rightarrow>
   fault + (int \<times> netlink_channel \<times> context_NL80211_CMD_NEW_SCAN_RESULTS)" where
  "trigger_scan char_signed channel c =
     (let nlh = mnl_attr_put_u32
                  (prepare_nl_message (nl80211_id channel) (NLM_F_REQUEST OR NLM_F_ACK)
                     NL80211_CMD_TRIGGER_SCAN channel)
                  NL80211_ATTR_IFINDEX (ifindex channel) in
      case send_nl_message nlh channel of
        Inl f \<Rightarrow> Inl f
      | Inr (False, channel') \<Rightarrow> Inr (MNL_CB_ERROR, channel', c)
      | Inr (True, channel') \<Rightarrow>
          receive_nl_message channel' (handle_NL80211_CMD_NEW_SCAN_RESULTS char_signed) c)"

definition get_scan ::
  "bool \<Rightarrow> netlink_channel \<Rightarrow> context_NL80211_CMD_NEW_SCAN_RESULTS \<Rightarrow>
   fault + (int \<times> netlink_channel \<times> context_NL80211_CMD_NEW_SCAN_RESULTS)" where
  "get_scan char_signed channel c =
     (let nlh = mnl_attr_put_u32
                  (prepare_nl_message (nl80211_id channel)
                     (NLM_F_REQUEST OR NLM_F_DUMP OR NLM_F_ACK) NL80211_CMD_GET_SCAN channel)
                  NL80211_ATTR_IFINDEX (ifindex channel) in
      case send_nl_message nlh channel of
        Inl f \<Rightarrow> Inl f
      | Inr (False, channel') \<Rightarrow> Inr (MNL_CB_ERROR, channel', c)
      | Inr (True, channel') \<Rightarrow>
          receive_nl_message channel' (handle_NL80211_CMD_NEW_SCAN_RESULTS char_signed) c)"

definition get_station ::
  "netlink_channel \<Rightarrow> u8 list \<Rightarrow> context_NL80211_CMD_NEW_STATION \<Rightarrow>
   fault + (int \<times> netlink_channel \<times> context_NL80211_CMD_NEW_STATION)" where
  "get_station channel mac c =
     (let nlh = mnl_attr_put_mac
                  (mnl_attr_put_u32
                     (prepare_nl_message (nl80211_id channel) (NLM_F_REQUEST OR NLM_F_ACK)
                        NL80211_CMD_GET_STATION channel)
                     NL80211_ATTR_IFINDEX (ifindex channel))
                  mac in
      case send_nl_message nlh channel of
        Inl f \<Rightarrow> Inl f
      | Inr (False, channel') \<Rightarrow> Inr (MNL_CB_ERROR, channel', c)
      | Inr (True, channel') \<Rightarrow>
          receive_nl_message channel' (\<lambda>nlh c. Inr (handle_NL80211_CMD_NEW_STATION nlh c)) c)"

definition trigger_scan_if_necessary ::
  "bool \<Rightarrow> netlink_channel \<Rightarrow> context_NL80211_MULTICAST_GROUP_SCAN \<Rightarrow>
   context_NL80211_CMD_NEW_SCAN_RESULTS \<Rightarrow>
   fault + (int \<times> netlink_channel \<times> context_NL80211_CMD_NEW_SCAN_RESULTS)" where
  "trigger_scan_if_necessary char_signed commands scanning c =
     (if new_scan_results scanning = 0 \<and> scan_triggered scanning = 0 then
        (case trigger_scan char_signed commands c of
           Inl f \<Rightarrow> Inl f
         | Inr (r, commands', c') \<Rightarrow>
             if r = - 1 then Inr (- 1, commands', c') else Inr (0, commands', c'))
      else Inr (0, commands, c))"

subsection \<open>Notifications\<close>

text \<open>
  The loop of \<^verbatim>\<open>read_past_notifications\<close>. It ends with \<open>None\<close> where the code returns
  \<^verbatim>\<open>false\<close> from inside the loop, and with the \<^verbatim>\<open>errno\<close> of the receive that failed
  otherwise. A datagram of no bytes is run like any other.
\<close>

function read_past_loop ::
  "netlink_channel \<Rightarrow> context_NL80211_MULTICAST_GROUP_SCAN \<Rightarrow>
   fault + (int option \<times> netlink_channel \<times> context_NL80211_MULTICAST_GROUP_SCAN)" where
  "read_past_loop notifications c =
     (case channel_recv notifications of
        Inl f \<Rightarrow> Inl f
      | Inr (RecvFail e, notifications') \<Rightarrow> Inr (Some e, notifications', c)
      | Inr (RecvZero, notifications') \<Rightarrow>
          (case mnl_cb_run [] 0 0 (\<lambda>nlh c. Inr (handle_NL80211_MULTICAST_GROUP_SCAN nlh c)) c of
             Inl f \<Rightarrow> Inl f
           | Inr (run_ret, c') \<Rightarrow>
               if run_ret \<le> 0 then Inr (None, notifications', c')
               else read_past_loop notifications' c')
      | Inr (RecvData msgs, notifications') \<Rightarrow>
          (case mnl_cb_run msgs 0 0 (\<lambda>nlh c. Inr (handle_NL80211_MULTICAST_GROUP_SCAN nlh c)) c of
             Inl f \<Rightarrow> Inl f
           | Inr (run_ret, c') \<Rightarrow>
               if run_ret \<le> 0 then Inr (None, notifications', c')
               else read_past_loop notifications' c'))"
  by pat_completeness auto
termination
  by (relation "measure (\<lambda>(channel, c). pending channel)")
    (auto simp: channel_recv_def mnl_socket_recvfrom_def pending_def
      split: option.splits list.splits if_splits)

declare read_past_loop.simps [simp del]

definition read_past_notifications ::
  "netlink_channel \<Rightarrow> context_NL80211_MULTICAST_GROUP_SCAN \<Rightarrow>
   fault + (bool \<times> netlink_channel \<times> context_NL80211_MULTICAST_GROUP_SCAN)" where
  "read_past_notifications notifications c =
     (case set_channel_non_blocking notifications of
        Inl f \<Rightarrow> Inl f
      | Inr (False, n1) \<Rightarrow> Inr (False, n1, c)
      | Inr (True, n1) \<Rightarrow>
          (case read_past_loop n1 c of
             Inl f \<Rightarrow> Inl f
           | Inr (None, n2, c') \<Rightarrow> Inr (False, n2, c')
           | Inr (Some e, n2, c') \<Rightarrow>
               if \<not> (e = EINPROGRESS \<or> e = EWOULDBLOCK) then Inr (False, n2, c')
               else
                 (case set_channel_blocking n2 of
                    Inl f \<Rightarrow> Inl f
                  | Inr (ok, n3) \<Rightarrow> Inr (ok, n3, c'))))"

function wait_for_new_scan_results ::
  "netlink_channel \<Rightarrow> context_NL80211_MULTICAST_GROUP_SCAN \<Rightarrow>
   fault + (bool \<times> netlink_channel \<times> context_NL80211_MULTICAST_GROUP_SCAN)" where
  "wait_for_new_scan_results notifications scanning =
     (if new_scan_results scanning \<noteq> 0 then Inr (True, notifications, scanning)
      else
        (case channel_recv notifications of
           Inl f \<Rightarrow> Inl f
         | Inr (RecvFail e, notifications') \<Rightarrow> Inr (False, notifications', scanning)
         | Inr (RecvZero, notifications') \<Rightarrow> Inr (False, notifications', scanning)
         | Inr (RecvData msgs, notifications') \<Rightarrow>
             (case mnl_cb_run msgs 0 0
                     (\<lambda>nlh c. Inr (handle_NL80211_MULTICAST_GROUP_SCAN nlh c)) scanning of
                Inl f \<Rightarrow> Inl f
              | Inr (ret, scanning') \<Rightarrow>
                  if ret \<le> 0 then Inr (False, notifications', scanning')
                  else wait_for_new_scan_results notifications' scanning')))"
  by pat_completeness auto
termination
  by (relation "measure (\<lambda>(channel, c). pending channel)")
    (auto simp: channel_recv_def mnl_socket_recvfrom_def pending_def
      split: option.splits list.splits if_splits)

declare wait_for_new_scan_results.simps [simp del]

subsection \<open>The two public operations\<close>

text \<open>\<^verbatim>\<open>wifi_scan_all\<close> returns its value with the handle and the storage of the caller
  as the call leaves them. The result of \<^verbatim>\<open>get_scan\<close> is not read (line 538).\<close>

definition wifi_scan_all ::
  "bool \<Rightarrow> wifi_scan \<Rightarrow> bss_info list \<Rightarrow> int \<Rightarrow> fault + (int \<times> wifi_scan \<times> bss_info list)" where
  "wifi_scan_all char_signed wifi bss_infos0 bss_infos_length0 =
     (let scanning = \<lparr>new_scan_results = 0, scan_triggered = 0\<rparr>;
          scan_results = \<lparr>bss_infos = bss_infos0, bss_infos_length = bss_infos_length0, scanned = 0\<rparr>
      in case read_past_notifications (notification_channel wifi) scanning of
           Inl f \<Rightarrow> Inl f
         | Inr (False, n1, s1) \<Rightarrow> Inr (- 1, wifi\<lparr>notification_channel := n1\<rparr>, bss_infos0)
         | Inr (True, n1, s1) \<Rightarrow>
             (case trigger_scan_if_necessary char_signed (command_channel wifi) s1 scan_results of
                Inl f \<Rightarrow> Inl f
              | Inr (r, c1, sr1) \<Rightarrow>
                  if r = - 1
                  then Inr (- 1, \<lparr>notification_channel = n1, command_channel = c1\<rparr>, bss_infos sr1)
                  else
                    (case wait_for_new_scan_results n1 s1 of
                       Inl f \<Rightarrow> Inl f
                     | Inr (False, n2, s2) \<Rightarrow>
                         Inr (- 1, \<lparr>notification_channel = n2, command_channel = c1\<rparr>, bss_infos sr1)
                     | Inr (True, n2, s2) \<Rightarrow>
                         (case get_scan char_signed c1 sr1 of
                            Inl f \<Rightarrow> Inl f
                          | Inr (ignored, c2, sr2) \<Rightarrow>
                              Inr (scanned sr2,
                                   \<lparr>notification_channel = n2, command_channel = c2\<rparr>,
                                   bss_infos sr2)))))"

text \<open>
  \<^verbatim>\<open>wifi_scan_station\<close>. The local record \<^verbatim>\<open>bss\<close> is not initialised: what it holds at
  first is a parameter. The test after the dump is on \<open>scanned\<close> alone (line 847).
\<close>

definition wifi_scan_station ::
  "bool \<Rightarrow> bss_info \<Rightarrow> wifi_scan \<Rightarrow> station_info \<Rightarrow> fault + (int \<times> wifi_scan \<times> station_info)" where
  "wifi_scan_station char_signed bss0 wifi station0 =
     (let scan_results = \<lparr>bss_infos = [bss0], bss_infos_length = 1, scanned = 0\<rparr> in
      case get_scan char_signed (command_channel wifi) scan_results of
        Inl f \<Rightarrow> Inl f
      | Inr (r, c1, sr1) \<Rightarrow>
          if r = MNL_CB_ERROR then Inr (0, wifi\<lparr>command_channel := c1\<rparr>, station0)
          else if scanned sr1 = 0 then Inr (0, wifi\<lparr>command_channel := c1\<rparr>, station0)
          else
            (case slot_read (bss_infos sr1) 0 of
               Inl f \<Rightarrow> Inl f
             | Inr bss \<Rightarrow>
                 (case get_station c1 (bssid bss) \<lparr>station = station0\<rparr> of
                    Inl f \<Rightarrow> Inl f
                  | Inr (r2, c2, st) \<Rightarrow>
                      if r2 = MNL_CB_ERROR
                      then Inr (0, wifi\<lparr>command_channel := c2\<rparr>, station st)
                      else Inr (1, wifi\<lparr>command_channel := c2\<rparr>,
                                (station st)
                                  \<lparr>sta_bssid := memcpy (sta_bssid (station st)) (bssid bss) BSSID_LENGTH,
                                   sta_ssid := memcpy (sta_ssid (station st)) (ssid bss)
                                                 SSID_MAX_LENGTH_WITH_NULL,
                                   sta_status := status bss\<rparr>))))"

section \<open>Validation, entries and records as the specification words them\<close>

text \<open>An attribute mismatches a rule of the table: the check that \<^verbatim>\<open>validate\<close> makes for
  the rule, by the type alone when the rule has no length, by type and length otherwise,
  fails.\<close>

definition rule_mismatch :: "nlattr \<Rightarrow> attribute_validation \<Rightarrow> bool" where
  "rule_mismatch a v \<longleftrightarrow>
     (av_len v = 0 \<and> mnl_attr_validate a (av_type v) < 0) \<or>
     (av_len v \<noteq> 0 \<and> mnl_attr_validate2 a (av_type v) (av_len v) < 0)"

text \<open>A violation: the identifier is within the declared maximum and some rule for it
  is mismatched.\<close>

definition violation :: "nlattr \<Rightarrow> validation_data \<Rightarrow> bool" where
  "violation a vd \<longleftrightarrow>
     mnl_attr_get_type a \<le> attribute_length vd \<and>
     (\<exists>v \<in> set (validation vd). av_attr v = mnl_attr_get_type a \<and> rule_mismatch a v)"

text \<open>Recording without any check: the slot of the identifier is overwritten when the
  identifier is within the maximum, and the attribute is skipped otherwise.\<close>

definition record_attr ::
  "nat \<Rightarrow> nlattr \<Rightarrow> (nat \<Rightarrow> nlattr option) \<Rightarrow> (nat \<Rightarrow> nlattr option)" where
  "record_attr mx a tb =
     (if mnl_attr_get_type a \<le> mx then tb(mnl_attr_get_type a \<mapsto> a) else tb)"

definition record_attrs ::
  "nat \<Rightarrow> nlattr list \<Rightarrow> (nat \<Rightarrow> nlattr option) \<Rightarrow> (nat \<Rightarrow> nlattr option)" where
  "record_attrs mx as tb = fold (record_attr mx) as tb"

text \<open>A BSS entry of a dump, by what \<^verbatim>\<open>parse_NL80211_ATTR_BSS\<close> makes of it: whether its
  status is associated or joined, the record that results when its attributes are
  written over a record, and whether its information elements are decoded without a
  fault (the fault does not depend on the array written to).\<close>

definition entry_associated :: "nlattr \<Rightarrow> bool" where
  "entry_associated e \<longleftrightarrow> associated_or_joined (bss_status (bss_table e))"

definition entry_fill :: "bool \<Rightarrow> nlattr \<Rightarrow> bss_info \<Rightarrow> fault + bss_info" where
  "entry_fill char_signed e old = bss_fill char_signed (bss_table e) (bss_status (bss_table e)) old"

definition entry_fault_free :: "bool \<Rightarrow> nlattr \<Rightarrow> bool" where
  "entry_fault_free char_signed e \<longleftrightarrow>
     (case bss_table e NL80211_BSS_INFORMATION_ELEMENTS of
        None \<Rightarrow> True
      | Some a \<Rightarrow> \<not> isl (parse_NL80211_BSS_INFORMATION_ELEMENTS char_signed a []))"

text \<open>
  The SSID of information elements as the specification gives it: for a payload that
  starts with the element id 0 and a declared length of at most 32 that the payload
  holds, the declared bytes as a zero-terminated string; the empty string otherwise.
\<close>

definition spec_ssid :: "u8 list \<Rightarrow> u8 list" where
  "spec_ssid p =
     (if 2 \<le> length p \<and> p ! 0 = 0 \<and> unat (p ! 1) \<le> 32 \<and> unat (p ! 1) \<le> length p - 2
      then c_string (take (unat (p ! 1)) (drop 2 p)) else [])"

text \<open>
  A record holds the BSS of an entry: its status is that of the status attribute of
  the entry (\<open>BSS_NONE\<close> without one), and every field whose attribute the entry carries
  has the value of that attribute.
\<close>

definition holds_entry :: "bss_info \<Rightarrow> nlattr \<Rightarrow> bool" where
  "holds_entry r e \<longleftrightarrow>
     status r = (case bss_table e NL80211_BSS_STATUS of
                   None \<Rightarrow> BSS_NONE | Some a \<Rightarrow> mnl_attr_get_u32 a) \<and>
     (case bss_table e NL80211_BSS_BSSID of
        None \<Rightarrow> True | Some a \<Rightarrow> take BSSID_LENGTH (bssid r) = nla_payload a) \<and>
     (case bss_table e NL80211_BSS_FREQUENCY of
        None \<Rightarrow> True | Some a \<Rightarrow> frequency r = mnl_attr_get_u32 a) \<and>
     (case bss_table e NL80211_BSS_INFORMATION_ELEMENTS of
        None \<Rightarrow> True | Some a \<Rightarrow> c_string (ssid r) = spec_ssid (nla_payload a)) \<and>
     (case bss_table e NL80211_BSS_SIGNAL_MBM of
        None \<Rightarrow> True | Some a \<Rightarrow> signal_mbm r = mnl_attr_get_u32 a) \<and>
     (case bss_table e NL80211_BSS_SEEN_MS_AGO of
        None \<Rightarrow> True | Some a \<Rightarrow> seen_ms_ago r = mnl_attr_get_u32 a)"

text \<open>The records of a storage are well formed: the SSID array of each has its 33
  bytes.\<close>

definition storage_ok :: "bss_info list \<Rightarrow> bool" where
  "storage_ok buf \<longleftrightarrow> list_all (\<lambda>b. length (ssid b) = SSID_MAX_LENGTH_WITH_NULL) buf"



text \<open>
  What becomes of a channel under the operations that use it: \<open>channel_run ch n ch'\<close>
  when \<open>ch'\<close> results from \<open>ch\<close> by sends, changes of the blocking mode, receives of
  the notification loops and \<open>n\<close> calls of \<^verbatim>\<open>receive_nl_message\<close> that returned, in any
  order.
\<close>

inductive channel_run :: "bool \<Rightarrow> netlink_channel \<Rightarrow> nat \<Rightarrow> netlink_channel \<Rightarrow> bool"
  for char_signed :: bool and ch :: netlink_channel where
  start: "channel_run char_signed ch 0 ch"
| sent: "channel_run char_signed ch n ch1 \<Longrightarrow> send_nl_message nlh ch1 = Inr (ok, ch2) \<Longrightarrow>
     channel_run char_signed ch n ch2"
| mode: "channel_run char_signed ch n ch1 \<Longrightarrow> set_blocking_mode nb ch1 = Inr (ok, ch2) \<Longrightarrow>
     channel_run char_signed ch n ch2"
| received: "channel_run char_signed ch n ch1 \<Longrightarrow> channel_recv ch1 = Inr (ev, ch2) \<Longrightarrow>
     channel_run char_signed ch n ch2"
| scan_exchange: "channel_run char_signed ch n ch1 \<Longrightarrow>
     receive_nl_message ch1 (handle_NL80211_CMD_NEW_SCAN_RESULTS char_signed) c = Inr (r, ch2, c') \<Longrightarrow>
     channel_run char_signed ch (Suc n) ch2"
| station_exchange: "channel_run char_signed ch n ch1 \<Longrightarrow>
     receive_nl_message ch1 (\<lambda>nlh c. Inr (handle_NL80211_CMD_NEW_STATION nlh c)) sc = Inr (r, ch2, sc') \<Longrightarrow>
     channel_run char_signed ch (Suc n) ch2"

section \<open>Example inputs\<close>

text \<open>A family reply: the family id 28, then a multicast group list of two payload
  bytes (a nested attribute has none or at least four), then a family name.\<close>

definition family_reply_attrs :: "u8 list" where
  "family_reply_attrs =
     [6, 0, 1, 0, 0x1C, 0, 0, 0,
      6, 0, 7, 0, 1, 2, 0, 0,
      7, 0, 2, 0, 0x6E, 0x6C, 0, 0]"

definition family_reply :: nlmsghdr where
  "family_reply =
     \<lparr>nlmsg_type = 16, nlmsg_flags = 0, nlmsg_seq = 1, nlmsg_pid = 0, genl_cmd = 1, genl_version = 2,
      genl_attrs = family_reply_attrs, nlmsgerr_error = 0\<rparr>"

text \<open>The same reply with the malformed group list first.\<close>

definition family_reply_groups_first :: nlmsghdr where
  "family_reply_groups_first =
     \<lparr>nlmsg_type = 16, nlmsg_flags = 0, nlmsg_seq = 1, nlmsg_pid = 0, genl_cmd = 1, genl_version = 2,
      genl_attrs = [6, 0, 7, 0, 1, 2, 0, 0, 6, 0, 1, 0, 0x1C, 0, 0, 0], nlmsgerr_error = 0\<rparr>"

definition attr_family_id :: nlattr where
  "attr_family_id = \<lparr>nla_type = 1, nla_payload = [0x1C, 0]\<rparr>"

definition attr_bad_groups :: nlattr where
  "attr_bad_groups = \<lparr>nla_type = 7, nla_payload = [1, 2]\<rparr>"

definition attr_family_name :: nlattr where
  "attr_family_name = \<lparr>nla_type = 2, nla_payload = [0x6E, 0x6C, 0]\<rparr>"

definition attr_above_max :: nlattr where
  "attr_above_max = \<lparr>nla_type = 11, nla_payload = []\<rparr>"

definition fresh_channel :: netlink_channel where
  "fresh_channel = \<lparr>nl = None, nl80211_id = 0, ifindex = 3, sequence = 1\<rparr>"

definition family_context :: context_CTRL_CMD_GETFAMILY where
  "family_context = \<lparr>id_NL80211_MULTICAST_GROUP_SCAN = 0\<rparr>"



text \<open>A BSS whose BSSID attribute has five bytes, followed by the frequency 2412.\<close>

definition short_bssid_attr :: nlattr where
  "short_bssid_attr = \<lparr>nla_type = 1, nla_payload = [1, 2, 3, 4, 5]\<rparr>"

definition frequency_attr :: nlattr where
  "frequency_attr = \<lparr>nla_type = 2, nla_payload = [0x6C, 9, 0, 0]\<rparr>"

definition entry_short_bssid :: nlattr where
  "entry_short_bssid =
     \<lparr>nla_type = 47,
      nla_payload = [9, 0, 1, 0, 1, 2, 3, 4, 5, 0, 0, 0, 8, 0, 2, 0, 0x6C, 9, 0, 0]\<rparr>"


text \<open>Information elements of one byte, and with a declared length of 128.\<close>

definition ie_one_byte :: nlattr where
  "ie_one_byte = \<lparr>nla_type = 6, nla_payload = [0]\<rparr>"

definition ie_length_128 :: nlattr where
  "ie_length_128 = \<lparr>nla_type = 6, nla_payload = [0, 0x80, 0x41, 0x42]\<rparr>"

text \<open>Storage of two slots and of none, zeroed as a caller does; three BSS entries of a
  dump, the second associated; and the records that the first two produce.\<close>

definition zero_bss :: bss_info where
  "zero_bss =
     \<lparr>bssid = replicate 6 0, frequency = 0, ssid = replicate 33 0, status = 0,
      signal_mbm = 0, seen_ms_ago = 0\<rparr>"

definition two_slot_results :: context_NL80211_CMD_NEW_SCAN_RESULTS where
  "two_slot_results = \<lparr>bss_infos = [zero_bss, zero_bss], bss_infos_length = 2, scanned = 0\<rparr>"

definition no_slot_results :: context_NL80211_CMD_NEW_SCAN_RESULTS where
  "no_slot_results = \<lparr>bss_infos = [], bss_infos_length = 0, scanned = 0\<rparr>"

definition entry_n1 :: nlattr where
  "entry_n1 =
     \<lparr>nla_type = 47,
      nla_payload =
        [10, 0, 1, 0, 0x11, 0x11, 0x11, 0x11, 0x11, 0x11, 0, 0,
         8, 0, 2, 0, 0x6C, 9, 0, 0,
         8, 0, 6, 0, 0, 2, 0x4E, 0x31,
         8, 0, 7, 0, 0x18, 0xFC, 0xFF, 0xFF,
         8, 0, 10, 0, 5, 0, 0, 0]\<rparr>"

definition entry_a2 :: nlattr where
  "entry_a2 =
     \<lparr>nla_type = 47,
      nla_payload =
        [10, 0, 1, 0, 0x22, 0x22, 0x22, 0x22, 0x22, 0x22, 0, 0,
         8, 0, 2, 0, 0x3C, 0x14, 0, 0,
         8, 0, 6, 0, 0, 2, 0x41, 0x50,
         8, 0, 7, 0, 0x30, 0xF8, 0xFF, 0xFF,
         8, 0, 9, 0, 1, 0, 0, 0,
         8, 0, 10, 0, 9, 0, 0, 0]\<rparr>"

definition entry_n3 :: nlattr where
  "entry_n3 =
     \<lparr>nla_type = 47,
      nla_payload =
        [10, 0, 1, 0, 0x33, 0x33, 0x33, 0x33, 0x33, 0x33, 0, 0,
         8, 0, 2, 0, 0x85, 9, 0, 0]\<rparr>"

definition record_n1 :: bss_info where
  "record_n1 =
     \<lparr>bssid = [0x11, 0x11, 0x11, 0x11, 0x11, 0x11], frequency = 2412,
      ssid = [0x4E, 0x31] @ replicate 31 0, status = BSS_NONE,
      signal_mbm = - 1000, seen_ms_ago = 5\<rparr>"

definition record_a2 :: bss_info where
  "record_a2 =
     \<lparr>bssid = [0x22, 0x22, 0x22, 0x22, 0x22, 0x22], frequency = 5180,
      ssid = [0x41, 0x50] @ replicate 31 0, status = 1,
      signal_mbm = - 2000, seen_ms_ago = 9\<rparr>"


definition stored_station :: station_info where
  "stored_station =
     \<lparr>sta_bssid = replicate 6 0, sta_ssid = replicate 33 0, sta_status = 0,
      signal_dbm = 0xC4, rx_packets = 1, tx_packets = 2\<rparr>"

text \<open>Messages of the kernel: the notification of new scan results, a message of a
  dump carrying one BSS, the end of a dump, an acknowledgement, and a station reply with
  signal, received and transmitted packets.\<close>

definition results_notification :: nlmsghdr where
  "results_notification =
     \<lparr>nlmsg_type = 28, nlmsg_flags = 0, nlmsg_seq = 0, nlmsg_pid = 0,
      genl_cmd = 34, genl_version = 1, genl_attrs = [], nlmsgerr_error = 0\<rparr>"

definition bss_message :: "u32 \<Rightarrow> nlattr \<Rightarrow> nlmsghdr" where
  "bss_message sq e =
     \<lparr>nlmsg_type = 28, nlmsg_flags = 2, nlmsg_seq = sq, nlmsg_pid = 101,
      genl_cmd = 34, genl_version = 1,
      genl_attrs = [word_of_nat (length (nla_payload e) + 4), 0, 47, 0] @ nla_payload e,
      nlmsgerr_error = 0\<rparr>"

definition done_message :: "u32 \<Rightarrow> nlmsghdr" where
  "done_message sq =
     \<lparr>nlmsg_type = 3, nlmsg_flags = 2, nlmsg_seq = sq, nlmsg_pid = 101,
      genl_cmd = 0, genl_version = 0, genl_attrs = [], nlmsgerr_error = 0\<rparr>"

definition ack_message :: "u32 \<Rightarrow> nlmsghdr" where
  "ack_message sq =
     \<lparr>nlmsg_type = 2, nlmsg_flags = 0, nlmsg_seq = sq, nlmsg_pid = 101,
      genl_cmd = 0, genl_version = 0, genl_attrs = [], nlmsgerr_error = 0\<rparr>"

definition station_message :: "u32 \<Rightarrow> nlmsghdr" where
  "station_message sq =
     \<lparr>nlmsg_type = 28, nlmsg_flags = 0, nlmsg_seq = sq, nlmsg_pid = 101,
      genl_cmd = 19, genl_version = 1,
      genl_attrs = [28, 0, 21, 0,
                    5, 0, 7, 0, 0xC4, 0, 0, 0,
                    8, 0, 9, 0, 10, 0, 0, 0,
                    8, 0, 10, 0, 20, 0, 0, 0],
      nlmsgerr_error = 0\<rparr>"

text \<open>Sockets and channels with a script, and handles: one whose dump request cannot
  be sent, one whose dump breaks after the first BSS with a receive error, and one whose
  dump holds a single BSS without status while the station query is answered.\<close>

definition notification_socket :: mnl_socket where
  "notification_socket =
     \<lparr>portid = 100, inbox = [RecvData [results_notification]], nonblocking = False,
      sendto_fails = [], fcntl_fails = []\<rparr>"

definition command_socket :: "recv_event list \<Rightarrow> bool list \<Rightarrow> mnl_socket" where
  "command_socket evs fails =
     \<lparr>portid = 101, inbox = evs, nonblocking = False, sendto_fails = fails, fcntl_fails = []\<rparr>"

definition channel_on :: "mnl_socket \<Rightarrow> netlink_channel" where
  "channel_on s = \<lparr>nl = Some s, nl80211_id = 28, ifindex = 3, sequence = 1\<rparr>"

definition wifi_send_fails :: wifi_scan where
  "wifi_send_fails =
     \<lparr>notification_channel = channel_on notification_socket,
      command_channel = channel_on (command_socket [] [True])\<rparr>"

definition wifi_dump_breaks :: wifi_scan where
  "wifi_dump_breaks =
     \<lparr>notification_channel = channel_on notification_socket,
      command_channel = channel_on (command_socket [RecvData [bss_message 1 entry_n1], RecvFail 5] [])\<rparr>"

definition wifi_not_associated :: wifi_scan where
  "wifi_not_associated =
     \<lparr>notification_channel = channel_on notification_socket,
      command_channel = channel_on (command_socket
        [RecvData [bss_message 1 entry_n1], RecvData [done_message 1],
         RecvData [station_message 2, ack_message 2]] [])\<rparr>"




text \<open>A BSS whose information elements declare an SSID of 128 bytes; a BSS that is
  joined to an IBSS; a BSS whose status attribute, associated, follows a BSSID attribute
  of five bytes, with that status attribute; and a BSS that carries the status
  associated and nothing else.\<close>

definition entry_ssid_128 :: nlattr where
  "entry_ssid_128 =
     \<lparr>nla_type = 47,
      nla_payload =
        [10, 0, 1, 0, 0x44, 0x44, 0x44, 0x44, 0x44, 0x44, 0, 0,
         8, 0, 2, 0, 0x6C, 9, 0, 0,
         8, 0, 6, 0, 0, 0x80, 0x41, 0x42]\<rparr>"

definition entry_j2 :: nlattr where
  "entry_j2 =
     \<lparr>nla_type = 47,
      nla_payload =
        [10, 0, 1, 0, 0x55, 0x55, 0x55, 0x55, 0x55, 0x55, 0, 0,
         8, 0, 2, 0, 0x3C, 0x14, 0, 0,
         8, 0, 6, 0, 0, 2, 0x4A, 0x32,
         8, 0, 7, 0, 0x30, 0xF8, 0xFF, 0xFF,
         8, 0, 9, 0, 2, 0, 0, 0,
         8, 0, 10, 0, 9, 0, 0, 0]\<rparr>"

definition record_j2 :: bss_info where
  "record_j2 =
     \<lparr>bssid = [0x55, 0x55, 0x55, 0x55, 0x55, 0x55], frequency = 5180,
      ssid = [0x4A, 0x32] @ replicate 31 0, status = 2,
      signal_mbm = - 2000, seen_ms_ago = 9\<rparr>"

definition status_attr_associated :: nlattr where
  "status_attr_associated = \<lparr>nla_type = 9, nla_payload = [1, 0, 0, 0]\<rparr>"

definition entry_late_status :: nlattr where
  "entry_late_status =
     \<lparr>nla_type = 47,
      nla_payload = [9, 0, 1, 0, 1, 2, 3, 4, 5, 0, 0, 0, 8, 0, 9, 0, 1, 0, 0, 0]\<rparr>"

definition entry_status_only :: nlattr where
  "entry_status_only = \<lparr>nla_type = 47, nla_payload = [8, 0, 9, 0, 1, 0, 0, 0]\<rparr>"




section \<open>Properties of the validation engine\<close>

lemma validate_entries_error_iff:
  "validate_entries a ty tab = MNL_CB_ERROR \<longleftrightarrow>
     (\<exists>v \<in> set tab. av_attr v = ty \<and> rule_mismatch a v)"
  by (induction tab) (auto simp: rule_mismatch_def Let_def)

lemma validate_violation: "violation a vd \<Longrightarrow> validate a vd = (MNL_CB_ERROR, vd)"
  by (auto simp: validate_def violation_def mnl_attr_type_valid_def Let_def
      validate_entries_error_iff)

lemma validate_no_violation:
  "\<not> violation a vd \<Longrightarrow>
   validate a vd =
     (MNL_CB_OK,
      vd\<lparr>attribute_table := record_attr (attribute_length vd) a (attribute_table vd)\<rparr>)"
  by (auto simp: validate_def violation_def mnl_attr_type_valid_def Let_def
      validate_entries_error_iff record_attr_def)

lemma violation_table_irrelevant [simp]:
  "violation a (vd\<lparr>attribute_table := tb\<rparr>) = violation a vd"
  by (simp add: violation_def)

lemma loop_no_violation:
  "\<forall>x \<in> set as. \<not> violation x vd \<Longrightarrow>
   mnl_attr_cb_loop validate r as vd =
     (if as = [] then r else MNL_CB_OK,
      vd\<lparr>attribute_table := record_attrs (attribute_length vd) as (attribute_table vd)\<rparr>)"
proof (induction as arbitrary: r vd)
  case Nil
  then show ?case by (simp add: record_attrs_def)
next
  case (Cons x xs)
  have nv: "\<not> violation x vd" using Cons.prems by simp
  let ?vd = "vd\<lparr>attribute_table := record_attr (attribute_length vd) x (attribute_table vd)\<rparr>"
  have rest: "\<forall>y \<in> set xs. \<not> violation y ?vd" using Cons.prems by simp
  show ?case
    using Cons.IH [OF rest, of MNL_CB_OK]
    by (cases xs) (simp_all add: validate_no_violation [OF nv] record_attrs_def)
qed

lemma loop_violation:
  assumes "\<forall>x \<in> set pre. \<not> violation x vd" and "violation a vd"
  shows "mnl_attr_cb_loop validate r (pre @ a # post) vd =
     (MNL_CB_ERROR,
      vd\<lparr>attribute_table := record_attrs (attribute_length vd) pre (attribute_table vd)\<rparr>)"
  using assms
proof (induction pre arbitrary: r vd)
  case Nil
  then show ?case by (simp add: validate_violation record_attrs_def)
next
  case (Cons x xs)
  have nv: "\<not> violation x vd" using Cons.prems by simp
  let ?vd = "vd\<lparr>attribute_table := record_attr (attribute_length vd) x (attribute_table vd)\<rparr>"
  have rest: "\<forall>y \<in> set xs. \<not> violation y ?vd" and va: "violation a ?vd"
    using Cons.prems by simp_all
  show ?case
    using Cons.IH [OF rest va, of MNL_CB_OK]
    by (simp add: validate_no_violation [OF nv] record_attrs_def)
qed


lemma getfamily_table_after_violation:
  assumes "mnl_attr_for_each (genl_attrs nlh) = pre @ a # post"
    and "\<forall>x \<in> set pre. \<not> violation x (empty_vd CTRL_ATTR_MAX NL80211_VALIDATION)"
    and "violation a (empty_vd CTRL_ATTR_MAX NL80211_VALIDATION)"
  shows "attribute_table (snd (mnl_attr_parse nlh validate (empty_vd CTRL_ATTR_MAX NL80211_VALIDATION)))
     = record_attrs CTRL_ATTR_MAX pre Map.empty"
  using loop_violation [OF assms(2,3), of MNL_CB_OK post] assms(1)
  by (simp add: mnl_attr_parse_def mnl_attr_parse_payload_def empty_vd_def)

lemma record_attrs_absent:
  "\<forall>x \<in> set as. mnl_attr_get_type x \<noteq> k \<Longrightarrow> record_attrs mx as tb k = tb k"
  unfolding record_attrs_def
  by (induction as arbitrary: tb) (auto simp: record_attr_def)

lemma getfamily_error_after_violation:
  assumes "mnl_attr_for_each (genl_attrs nlh) = pre @ a # post"
    and "\<forall>x \<in> set pre. \<not> violation x (empty_vd CTRL_ATTR_MAX NL80211_VALIDATION)"
    and "violation a (empty_vd CTRL_ATTR_MAX NL80211_VALIDATION)"
    and "\<forall>x \<in> set pre. mnl_attr_get_type x \<noteq> CTRL_ATTR_FAMILY_ID"
  shows "handle_CTRL_CMD_GETFAMILY nlh channel ctx = Inr (MNL_CB_ERROR, channel, ctx)"
  using record_attrs_absent [OF assms(4), of CTRL_ATTR_MAX Map.empty]
  by (simp add: handle_CTRL_CMD_GETFAMILY_def getfamily_table_after_violation [OF assms(1,2,3)])

lemma getfamily_ok_after_violation:
  assumes "mnl_attr_for_each (genl_attrs nlh) = pre @ a # post"
    and "\<forall>x \<in> set pre. \<not> violation x (empty_vd CTRL_ATTR_MAX NL80211_VALIDATION)"
    and "violation a (empty_vd CTRL_ATTR_MAX NL80211_VALIDATION)"
    and "record_attrs CTRL_ATTR_MAX pre Map.empty CTRL_ATTR_FAMILY_ID = Some fid"
    and "record_attrs CTRL_ATTR_MAX pre Map.empty CTRL_ATTR_MCAST_GROUPS = None"
  shows "handle_CTRL_CMD_GETFAMILY nlh channel ctx =
     Inr (MNL_CB_OK, channel\<lparr>nl80211_id := mnl_attr_get_u16 fid\<rparr>, ctx)"
  using assms(4,5)
  by (simp add: handle_CTRL_CMD_GETFAMILY_def getfamily_table_after_violation [OF assms(1,2,3)])

lemma family_reply_attrs_eq:
  "mnl_attr_for_each family_reply_attrs = [attr_family_id] @ attr_bad_groups # [attr_family_name]"
  by (simp add: family_reply_attrs_def mnl_attr_for_each.simps mnl_attr_ok_def le16_def
      MNL_ALIGN_def mnl_attr_at_def attr_family_id_def attr_bad_groups_def attr_family_name_def)

lemma bad_groups_violation:
  "violation attr_bad_groups (empty_vd CTRL_ATTR_MAX NL80211_VALIDATION)"
  by (simp add: violation_def empty_vd_def attr_bad_groups_def NL80211_VALIDATION_def nl_consts
      mnl_attr_get_type_def rule_mismatch_def mnl_attr_validate_def mnl_attr_validate_len_def
      mnl_attr_get_payload_len_def)

lemma family_id_no_violation:
  "\<not> violation attr_family_id (empty_vd CTRL_ATTR_MAX NL80211_VALIDATION)"
  by (simp add: violation_def empty_vd_def attr_family_id_def NL80211_VALIDATION_def nl_consts
      mnl_attr_get_type_def rule_mismatch_def mnl_attr_validate_def mnl_attr_validate_len_def
      mnl_attr_get_payload_len_def)

lemma family_reply_groups_first_attrs:
  "mnl_attr_for_each (genl_attrs family_reply_groups_first) = [] @ attr_bad_groups # [attr_family_id]"
  by (simp add: family_reply_groups_first_def mnl_attr_for_each.simps mnl_attr_ok_def le16_def
      MNL_ALIGN_def mnl_attr_at_def attr_family_id_def attr_bad_groups_def)

section \<open>Properties of the BSS parsers\<close>

lemma loop_recorded:
  "attribute_table (snd (mnl_attr_cb_loop validate r as vd)) k = Some a \<Longrightarrow>
   attribute_table vd k = Some a \<or>
   (a \<in> set as \<and> mnl_attr_get_type a = k \<and> k \<le> attribute_length vd \<and> \<not> violation a vd)"
proof (induction as arbitrary: r vd)
  case Nil
  then show ?case by simp
next
  case (Cons x xs)
  show ?case
  proof (cases "violation x vd")
    case True
    then show ?thesis using Cons.prems by (simp add: validate_violation)
  next
    case False
    let ?vd = "vd\<lparr>attribute_table := record_attr (attribute_length vd) x (attribute_table vd)\<rparr>"
    from Cons.prems False
    have "attribute_table (snd (mnl_attr_cb_loop validate MNL_CB_OK xs ?vd)) k = Some a"
      by (simp add: validate_no_violation)
    from Cons.IH [OF this] False show ?thesis
      by (auto simp: record_attr_def split: if_splits)
  qed
qed

lemma bss_table_recorded:
  assumes "bss_table e k = Some a"
  shows "mnl_attr_get_type a = k \<and> \<not> violation a (empty_vd NL80211_BSS_MAX NL80211_BSS_VALIDATION)"
  using loop_recorded [of MNL_CB_OK "mnl_attr_for_each (nla_payload e)"
      "empty_vd NL80211_BSS_MAX NL80211_BSS_VALIDATION" k a] assms
  by (auto simp: bss_table_def mnl_attr_parse_nested_def mnl_attr_parse_payload_def empty_vd_def)

lemma bssid_rule:
  "mnl_attr_get_type a = NL80211_BSS_BSSID \<Longrightarrow>
   violation a (empty_vd NL80211_BSS_MAX NL80211_BSS_VALIDATION) \<longleftrightarrow> length (nla_payload a) \<noteq> 6"
  by (auto simp: violation_def empty_vd_def NL80211_BSS_VALIDATION_def nl_consts rule_mismatch_def
      mnl_attr_validate2_def mnl_attr_validate_def mnl_attr_validate_len_def mnl_attr_get_payload_len_def Let_def)

lemma u32_rule:
  "mnl_attr_get_type a \<in> {NL80211_BSS_FREQUENCY, NL80211_BSS_STATUS, NL80211_BSS_SIGNAL_MBM, NL80211_BSS_SEEN_MS_AGO} \<Longrightarrow>
   violation a (empty_vd NL80211_BSS_MAX NL80211_BSS_VALIDATION) \<longleftrightarrow> length (nla_payload a) \<noteq> 4"
  by (auto simp: violation_def empty_vd_def NL80211_BSS_VALIDATION_def nl_consts rule_mismatch_def
      mnl_attr_validate2_def mnl_attr_validate_def mnl_attr_validate_len_def mnl_attr_get_payload_len_def Let_def)

lemma bss_table_bssid_length:
  "bss_table e NL80211_BSS_BSSID = Some a \<Longrightarrow> length (nla_payload a) = 6"
  using bss_table_recorded [of e NL80211_BSS_BSSID a] bssid_rule [of a] by auto

lemma parse_bssid_six:
  "mnl_attr_get_payload_len a = 6 \<Longrightarrow>
   parse_NL80211_BSS_BSSID a out = (nla_payload a @ drop 6 out, [])"
  by (simp add: parse_NL80211_BSS_BSSID_def BSSID_LENGTH_def memcpy_def mnl_attr_get_payload_len_def)



lemma bss_table_after_violation:
  assumes "mnl_attr_for_each (nla_payload e) = pre @ a # post"
    and "\<forall>x \<in> set pre. \<not> violation x (empty_vd NL80211_BSS_MAX NL80211_BSS_VALIDATION)"
    and "violation a (empty_vd NL80211_BSS_MAX NL80211_BSS_VALIDATION)"
  shows "bss_table e = record_attrs NL80211_BSS_MAX pre Map.empty"
  using loop_violation [OF assms(2,3), of MNL_CB_OK post] assms(1)
  by (simp add: bss_table_def mnl_attr_parse_nested_def mnl_attr_parse_payload_def empty_vd_def)

lemma bss_fill_faults:
  "bss_fill sc tb st b = Inl f \<Longrightarrow> f = OutOfBoundsRead \<or> f = SsidOverrun"
  by (auto simp: bss_fill_def Let_def parse_NL80211_BSS_INFORMATION_ELEMENTS_def
      split: option.splits sum.splits prod.splits if_splits)

lemma count_scanned_faults: "count_scanned sr = Inl f \<Longrightarrow> f = SignedOverflow"
  by (auto simp: count_scanned_def split: if_splits)

lemma parse_skip:
  assumes "bss_infos_length sr = 0 \<or> (\<not> entry_associated e \<and> bss_infos_length sr \<le> scanned sr)"
    and "0 \<le> scanned sr" and "0 \<le> bss_infos_length sr"
  shows "parse_NL80211_ATTR_BSS sc e sr = count_scanned sr"
proof -
  have nocopy: "(entry_associated e \<and> 0 < scanned sr \<and> scanned sr < bss_infos_length sr) = False"
    using assms by auto
  have skip: "(bss_infos_length sr = 0 \<or>
      (bss_infos_length sr \<le> scanned sr \<and> (if entry_associated e then 0 else scanned sr) \<noteq> 0)) = True"
    using assms by auto
  show ?thesis
    unfolding parse_NL80211_ATTR_BSS_def Let_def entry_associated_def [symmetric]
    by (simp only: nocopy skip if_False if_True sum.case) simp
qed

lemma parse_fill:
  assumes cap: "bss_infos_length sr = int (length (bss_infos sr))" and k: "0 \<le> scanned sr"
    and n: "\<not> (bss_infos_length sr = 0 \<or> (\<not> entry_associated e \<and> bss_infos_length sr \<le> scanned sr))"
  shows "parse_NL80211_ATTR_BSS sc e sr =
     (case entry_fill sc e (bss_infos sr ! (if entry_associated e then 0 else nat (scanned sr))) of
        Inl f \<Rightarrow> Inl f
      | Inr new \<Rightarrow>
          count_scanned (sr\<lparr>bss_infos :=
            (if entry_associated e \<and> 0 < scanned sr \<and> scanned sr < bss_infos_length sr
             then (bss_infos sr)[nat (scanned sr) := bss_infos sr ! 0] else bss_infos sr)
              [(if entry_associated e then 0 else nat (scanned sr)) := new]\<rparr>))"
proof -
  have noskip: "(bss_infos_length sr = 0 \<or>
      (bss_infos_length sr \<le> scanned sr \<and> (if entry_associated e then 0 else scanned sr) \<noteq> 0)) = False"
    using n k by auto
  have pos: "0 < length (bss_infos sr)" using n cap by auto
  show ?thesis
  proof (cases "entry_associated e \<and> 0 < scanned sr \<and> scanned sr < bss_infos_length sr")
    case True
    then have a: "entry_associated e" and k0: "nat (scanned sr) \<noteq> 0"
      and kn: "nat (scanned sr) < length (bss_infos sr)" using cap by auto
    have c: "(entry_associated e \<and> 0 < scanned sr \<and> scanned sr < bss_infos_length sr) = True"
      using True by simp
    show ?thesis
      unfolding parse_NL80211_ATTR_BSS_def Let_def entry_associated_def [symmetric]
        entry_fill_def [symmetric]
      apply (simp only: c noskip if_False if_True)
      using a k0 kn pos True cap
      apply (simp add: slot_read_def slot_write_def split: sum.splits)
      done
  next
    case False
    then have c: "(entry_associated e \<and> 0 < scanned sr \<and> scanned sr < bss_infos_length sr) = False"
      by simp
    show ?thesis
    proof (cases "entry_associated e")
      case a: True
      show ?thesis
        unfolding parse_NL80211_ATTR_BSS_def Let_def entry_associated_def [symmetric]
          entry_fill_def [symmetric]
        apply (simp only: c noskip if_False if_True sum.case)
        using a pos
        apply (simp add: slot_read_def slot_write_def split: sum.splits)
        done
    next
      case a: False
      then have "scanned sr < int (length (bss_infos sr))" using n cap by auto
      then show ?thesis
        unfolding parse_NL80211_ATTR_BSS_def Let_def entry_associated_def [symmetric]
          entry_fill_def [symmetric]
        apply (simp only: c noskip if_False if_True sum.case)
        using a k
        apply (simp add: slot_read_def slot_write_def split: sum.splits)
        done
    qed
  qed
qed

lemma count_scanned_Inr:
  "scanned sr < INT_MAX \<Longrightarrow> count_scanned sr = Inr (sr\<lparr>scanned := scanned sr + 1\<rparr>)"
  by (simp add: count_scanned_def)

lemma count_scanned_result:
  "count_scanned sr = Inr sr' \<Longrightarrow> sr' = sr\<lparr>scanned := scanned sr + 1\<rparr>"
  by (auto simp: count_scanned_def split: if_splits)

lemma parse_result:
  assumes cap: "bss_infos_length sr = int (length (bss_infos sr))" and k: "0 \<le> scanned sr"
    and r: "parse_NL80211_ATTR_BSS sc e sr = Inr sr'"
  shows "scanned sr' = scanned sr + 1 \<and> bss_infos_length sr' = bss_infos_length sr \<and>
     length (bss_infos sr') = length (bss_infos sr)"
proof (cases "bss_infos_length sr = 0 \<or> (\<not> entry_associated e \<and> bss_infos_length sr \<le> scanned sr)")
  case True
  then have "count_scanned sr = Inr sr'" using parse_skip [OF True k] cap r by simp
  from count_scanned_result [OF this] show ?thesis by simp
next
  case False
  from r parse_fill [OF cap k False] show ?thesis
    by (auto split: sum.splits dest!: count_scanned_result)
qed

lemma parse_no_slot_fault:
  assumes cap: "bss_infos_length sr = int (length (bss_infos sr))" and k: "0 \<le> scanned sr"
  shows "parse_NL80211_ATTR_BSS sc e sr \<noteq> Inl SlotOutOfBounds"
proof (cases "bss_infos_length sr = 0 \<or> (\<not> entry_associated e \<and> bss_infos_length sr \<le> scanned sr)")
  case True
  then show ?thesis using parse_skip [OF True k] cap count_scanned_faults [of sr SlotOutOfBounds]
    by auto
next
  case False
  show ?thesis
    using parse_fill [OF cap k False] count_scanned_faults bss_fill_faults
    by (fastforce simp: entry_fill_def split: sum.splits)
qed

lemma ie_fault_independent:
  "isl (parse_NL80211_BSS_INFORMATION_ELEMENTS sc a out) =
   isl (parse_NL80211_BSS_INFORMATION_ELEMENTS sc a out')"
  by (simp add: parse_NL80211_BSS_INFORMATION_ELEMENTS_def Let_def)

lemma entry_fill_returns:
  assumes "entry_fault_free sc e"
  shows "\<exists>new. entry_fill sc e old = Inr new"
proof (cases "bss_table e NL80211_BSS_INFORMATION_ELEMENTS")
  case None
  then show ?thesis by (simp add: entry_fill_def bss_fill_def Let_def)
next
  case (Some a)
  with assms have "\<not> isl (parse_NL80211_BSS_INFORMATION_ELEMENTS sc a [])"
    by (simp add: entry_fault_free_def)
  then have "\<And>out. \<not> isl (parse_NL80211_BSS_INFORMATION_ELEMENTS sc a out)"
    using ie_fault_independent by blast
  then have "\<And>out. \<exists>s l. parse_NL80211_BSS_INFORMATION_ELEMENTS sc a out = Inr (s, l)"
    by (metis isl_def sum.exhaust surj_pair)
  then show ?thesis using Some
    by (simp add: entry_fill_def bss_fill_def Let_def split: sum.splits prod.splits) (metis sum.distinct(1))
qed

lemma parse_returns:
  assumes cap: "bss_infos_length sr = int (length (bss_infos sr))" and k: "0 \<le> scanned sr"
    and b: "scanned sr < INT_MAX" and ff: "entry_fault_free sc e"
  shows "\<exists>sr'. parse_NL80211_ATTR_BSS sc e sr = Inr sr'"
proof (cases "bss_infos_length sr = 0 \<or> (\<not> entry_associated e \<and> bss_infos_length sr \<le> scanned sr)")
  case True
  then show ?thesis using parse_skip [OF True k] cap count_scanned_Inr [OF b] by simp
next
  case False
  obtain new where
    "entry_fill sc e (bss_infos sr ! (if entry_associated e then 0 else nat (scanned sr))) = Inr new"
    using entry_fill_returns [OF ff] by blast
  then show ?thesis
    using parse_fill [OF cap k False] b by (simp add: count_scanned_def)
qed

lemma dump_append:
  "bss_dump sc (xs @ ys) sr =
     (case bss_dump sc xs sr of Inl f \<Rightarrow> Inl f | Inr s \<Rightarrow> bss_dump sc ys s)"
  by (induction xs arbitrary: sr) (auto split: sum.splits)

lemma dump_result:
  assumes "bss_infos_length sr = int (length (bss_infos sr))" and "0 \<le> scanned sr"
    and "bss_dump sc es sr = Inr sr'"
  shows "scanned sr' = scanned sr + int (length es) \<and> bss_infos_length sr' = bss_infos_length sr \<and>
     length (bss_infos sr') = length (bss_infos sr)"
  using assms
proof (induction es arbitrary: sr)
  case Nil
  then show ?case by simp
next
  case (Cons e es)
  from Cons.prems(3) obtain s where s: "parse_NL80211_ATTR_BSS sc e sr = Inr s"
    and rest: "bss_dump sc es s = Inr sr'"
    by (auto split: sum.splits)
  note p = parse_result [OF Cons.prems(1,2) s]
  have "bss_infos_length s = int (length (bss_infos s))" "0 \<le> scanned s"
    using p Cons.prems by simp_all
  from Cons.IH [OF this rest] p show ?case by simp
qed

lemma dump_no_slot_fault:
  assumes "bss_infos_length sr = int (length (bss_infos sr))" and "0 \<le> scanned sr"
  shows "bss_dump sc es sr \<noteq> Inl SlotOutOfBounds"
  using assms
proof (induction es arbitrary: sr)
  case Nil
  then show ?case by simp
next
  case (Cons e es)
  show ?case
  proof (cases "parse_NL80211_ATTR_BSS sc e sr")
    case (Inl f)
    then show ?thesis using parse_no_slot_fault [OF Cons.prems, of sc e] by auto
  next
    case (Inr s)
    note p = parse_result [OF Cons.prems Inr]
    have "bss_infos_length s = int (length (bss_infos s))" "0 \<le> scanned s"
      using p Cons.prems by simp_all
    from Cons.IH [OF this] Inr show ?thesis by simp
  qed
qed

lemma dump_returns:
  assumes "bss_infos_length sr = int (length (bss_infos sr))" and "0 \<le> scanned sr"
    and "scanned sr + int (length es) \<le> INT_MAX" and "\<forall>e \<in> set es. entry_fault_free sc e"
  shows "\<exists>sr'. bss_dump sc es sr = Inr sr'"
  using assms
proof (induction es arbitrary: sr)
  case Nil
  then show ?case by simp
next
  case (Cons e es)
  have b: "scanned sr < INT_MAX" using Cons.prems(3) by simp
  have ff: "entry_fault_free sc e" using Cons.prems(4) by simp
  obtain s where s: "parse_NL80211_ATTR_BSS sc e sr = Inr s"
    using parse_returns [OF Cons.prems(1,2) b ff] by blast
  note p = parse_result [OF Cons.prems(1,2) s]
  have "bss_infos_length s = int (length (bss_infos s))" "0 \<le> scanned s"
    "scanned s + int (length es) \<le> INT_MAX" "\<forall>e \<in> set es. entry_fault_free sc e"
    using p Cons.prems by simp_all
  from Cons.IH [OF this] s show ?case by simp
qed

lemma dump_capacity_zero:
  assumes "bss_infos_length sr = 0" and "0 \<le> scanned sr"
    and "scanned sr + int (length es) \<le> INT_MAX"
  shows "bss_dump sc es sr = Inr (sr\<lparr>scanned := scanned sr + int (length es)\<rparr>)"
  using assms
proof (induction es arbitrary: sr)
  case Nil
  then show ?case by simp
next
  case (Cons e es)
  have b: "scanned sr < INT_MAX" using Cons.prems(3) by simp
  have s: "parse_NL80211_ATTR_BSS sc e sr = Inr (sr\<lparr>scanned := scanned sr + 1\<rparr>)"
    using parse_skip [of sr e sc] Cons.prems(1,2) count_scanned_Inr [OF b] by simp
  show ?case
    using Cons.IH [of "sr\<lparr>scanned := scanned sr + 1\<rparr>"] Cons.prems s
    by (simp add: add.assoc)
qed

lemma nonassociated_keeps_first:
  assumes "bss_infos_length sr = int (length (bss_infos sr))" and "0 < scanned sr"
    and "\<forall>x \<in> set post. \<not> entry_associated x" and "bss_dump sc post sr = Inr sr'"
  shows "bss_infos sr' ! 0 = bss_infos sr ! 0"
  using assms
proof (induction post arbitrary: sr)
  case Nil
  then show ?case by simp
next
  case (Cons e es)
  from Cons.prems(4) obtain s where s: "parse_NL80211_ATTR_BSS sc e sr = Inr s"
    and rest: "bss_dump sc es s = Inr sr'"
    by (auto split: sum.splits)
  have k: "0 \<le> scanned sr" using Cons.prems(2) by simp
  have na: "\<not> entry_associated e" using Cons.prems(3) by simp
  note p = parse_result [OF Cons.prems(1) k s]
  have first: "bss_infos s ! 0 = bss_infos sr ! 0"
  proof (cases "bss_infos_length sr = 0 \<or> (\<not> entry_associated e \<and> bss_infos_length sr \<le> scanned sr)")
    case True
    then have "count_scanned sr = Inr s" using parse_skip [OF True k] Cons.prems(1) s by simp
    from count_scanned_result [OF this] show ?thesis by simp
  next
    case False
    from s parse_fill [OF Cons.prems(1) k False] na Cons.prems(2) show ?thesis
      by (auto split: sum.splits dest!: count_scanned_result)
  qed
  have "bss_infos_length s = int (length (bss_infos s))" "0 < scanned s"
    "\<forall>x \<in> set es. \<not> entry_associated x"
    using p Cons.prems by simp_all
  from Cons.IH [OF this rest] first show ?case by simp
qed

lemma associated_fills_first:
  assumes cap: "bss_infos_length sr = int (length (bss_infos sr))" and k: "0 \<le> scanned sr"
    and pos: "0 < length (bss_infos sr)" and a: "entry_associated e"
    and s: "parse_NL80211_ATTR_BSS sc e sr = Inr sr'"
  shows "entry_fill sc e (bss_infos sr ! 0) = Inr (bss_infos sr' ! 0)"
proof -
  have n: "\<not> (bss_infos_length sr = 0 \<or> (\<not> entry_associated e \<and> bss_infos_length sr \<le> scanned sr))"
    using cap pos a by simp
  from s parse_fill [OF cap k n] a pos show ?thesis
    by (auto split: sum.splits if_splits dest!: count_scanned_result)
qed

lemma example_capacity_two:
  assumes buf: "bss_infos sr = [s0, s1]" and cap: "bss_infos_length sr = 2" and k: "scanned sr = 0"
    and n1: "\<not> entry_associated n1" and a2: "entry_associated a2" and n3: "\<not> entry_associated n3"
    and r1: "entry_fill sc n1 s0 = Inr r1" and r2: "entry_fill sc a2 r1 = Inr r2"
  shows "bss_dump sc [n1, a2, n3] sr = Inr (sr\<lparr>bss_infos := [r2, r1], scanned := 3\<rparr>)"
proof -
  let ?s1 = "sr\<lparr>bss_infos := [r1, s1], scanned := 1\<rparr>"
  let ?s2 = "sr\<lparr>bss_infos := [r2, r1], scanned := 2\<rparr>"
  have p1: "parse_NL80211_ATTR_BSS sc n1 sr = Inr ?s1"
    using parse_fill [of sr n1 sc] buf cap k n1 r1 by (simp add: count_scanned_def INT_MAX_def)
  have p2: "parse_NL80211_ATTR_BSS sc a2 ?s1 = Inr ?s2"
    using parse_fill [of ?s1 a2 sc] cap a2 r2 by (simp add: count_scanned_def INT_MAX_def)
  have p3: "parse_NL80211_ATTR_BSS sc n3 ?s2 = Inr (sr\<lparr>bss_infos := [r2, r1], scanned := 3\<rparr>)"
    using parse_skip [of ?s2 n3 sc] cap n3 by (simp add: count_scanned_def INT_MAX_def)
  show ?thesis by (simp add: p1 p2 p3)
qed







lemma entry_short_bssid_attrs:
  "mnl_attr_for_each (nla_payload entry_short_bssid) = [] @ short_bssid_attr # [frequency_attr]"
  by (simp add: entry_short_bssid_def mnl_attr_for_each.simps mnl_attr_ok_def le16_def
      MNL_ALIGN_def mnl_attr_at_def short_bssid_attr_def frequency_attr_def)

lemma short_bssid_violation:
  "violation short_bssid_attr (empty_vd NL80211_BSS_MAX NL80211_BSS_VALIDATION)"
  using bssid_rule [of short_bssid_attr]
  by (simp add: short_bssid_attr_def mnl_attr_get_type_def nl_consts)

lemma entry_short_bssid_table: "bss_table entry_short_bssid = Map.empty"
  using bss_table_after_violation [OF entry_short_bssid_attrs _ short_bssid_violation]
  by (simp add: record_attrs_def)

lemma ex_fill_n1: "entry_fill False entry_n1 zero_bss = Inr record_n1"
  by code_simp

lemma ex_fill_a2: "entry_fill False entry_a2 record_n1 = Inr record_a2"
  by code_simp

lemma ex_fault_free:
  "entry_fault_free False entry_n1" "entry_fault_free False entry_a2" "entry_fault_free False entry_n3"
  by code_simp+


section \<open>What a record holds of its entry, and the slots of a dump\<close>

lemma takeWhile_zero_head:
  "t \<noteq> [] \<Longrightarrow> hd t = (0::u8) \<Longrightarrow> takeWhile (\<lambda>b. b \<noteq> 0) t = []"
  by (cases t) auto

lemma strncpy_string:
  assumes "n < length out"
  shows "c_string ((strncpy out src n)[n := 0]) = c_string (take n src) \<and>
     length ((strncpy out src n)[n := 0]) = length out"
proof -
  let ?P = "\<lambda>b::u8. b \<noteq> 0"
  let ?s = "takeWhile ?P (take n src)"
  let ?k = "n - length ?s"
  let ?t = "(replicate ?k 0 @ drop n out)[?k := 0]"
  have ls: "length ?s \<le> n"
    using length_takeWhile_le [of ?P "take n src"] by simp
  have upd: "(strncpy out src n)[n := 0] = ?s @ ?t"
    using ls by (simp add: strncpy_def Let_def list_update_append)
  have ne: "drop n out \<noteq> []" using assms by simp
  have t0: "?t \<noteq> [] \<and> hd ?t = 0"
  proof (cases "?k = 0")
    case True
    then show ?thesis using ne by (cases "drop n out") auto
  next
    case False
    then obtain j where j: "?k = Suc j" by (cases ?k) auto
    show ?thesis using ne by (simp add: j list_update_append)
  qed
  have all: "\<forall>x \<in> set ?s. ?P x" by (auto dest: set_takeWhileD)
  have "takeWhile ?P (?s @ ?t) = ?s"
    using all t0 takeWhile_zero_head [of ?t] by (simp add: takeWhile_append2)
  moreover have "takeWhile ?P ?s = ?s" by simp
  ultimately have c: "c_string ((strncpy out src n)[n := 0]) = c_string (take n src)"
    by (simp add: upd c_string_def)
  have "length ((strncpy out src n)[n := 0]) = length out"
    using ls assms by (simp add: strncpy_def Let_def)
  with c show ?thesis by simp
qed

lemma sint_nonneg_uint:
  fixes b :: u8
  assumes "0 \<le> sint b"
  shows "sint b = uint b"
proof -
  have "sint b < 2 ^ 8" using sint_less [of b] by simp
  then have "take_bit 8 (sint b) = sint b" using assms by (simp add: take_bit_int_eq_self)
  then show ?thesis using uint_sint [of b] by simp
qed

lemma char_value_unsigned: "0 \<le> char_value sc b \<Longrightarrow> char_value sc b = int (unat b)"
  using sint_nonneg_uint [of b] by (auto simp: char_value_def)

lemma char_value_zero: "char_value sc b = 0 \<longleftrightarrow> b = 0"
  by (auto simp: char_value_def signed_eq_0_iff uint_0_iff)

lemma ie_decodes:
  assumes r: "parse_NL80211_BSS_INFORMATION_ELEMENTS sc a out = Inr (s, l)"
    and len: "length out = SSID_MAX_LENGTH_WITH_NULL"
  shows "c_string s = spec_ssid (nla_payload a) \<and> length s = length out"
proof -
  let ?p = "nla_payload a"
  have out0: "c_string (out[0 := 0]) = []"
    using len by (cases out) (simp_all add: c_string_def SSID_MAX_LENGTH_WITH_NULL_def)
  show ?thesis
  proof (cases "length ?p = 0")
    case True
    then show ?thesis using r out0
      by (auto simp: parse_NL80211_BSS_INFORMATION_ELEMENTS_def Let_def mnl_attr_get_payload_len_def
          spec_ssid_def)
  next
    case ne: False
    show ?thesis
    proof (cases "?p ! 0 = 0")
      case False
      then show ?thesis using r out0 ne
        by (auto simp: parse_NL80211_BSS_INFORMATION_ELEMENTS_def Let_def mnl_attr_get_payload_len_def
            spec_ssid_def char_value_zero)
    next
      case z: True
      have two: "2 \<le> length ?p" using r ne z
        by (auto simp: parse_NL80211_BSS_INFORMATION_ELEMENTS_def Let_def mnl_attr_get_payload_len_def
            char_value_zero split: if_splits)
      let ?v = "char_value sc (?p ! 1)"
      define n where "n = unat (?p ! 1)"
      have sp: "spec_ssid ?p = (if n \<le> 32 \<and> n \<le> length ?p - 2
          then c_string (take n (drop 2 ?p)) else [])"
        using two z by (simp add: spec_ssid_def n_def)
      have vn: "0 \<le> ?v \<Longrightarrow> ?v = int n"
        using char_value_unsigned [of sc "?p ! 1"] by (simp add: n_def)
      show ?thesis
      proof (cases "int SSID_MAX_LENGTH_WITH_NULL \<le> ?v \<or> int (length ?p) - 2 < ?v")
        case True
        have pos: "0 \<le> ?v" using True two by (auto simp: SSID_MAX_LENGTH_WITH_NULL_def)
        have v: "?v = int n" using vn [OF pos] .
        have "\<not> (n \<le> 32 \<and> n \<le> length ?p - 2)"
          using True two unfolding v by (auto simp: SSID_MAX_LENGTH_WITH_NULL_def)
        then have sp0: "spec_ssid ?p = []" using sp by auto
        from r True ne z two have "s = out[0 := 0]"
          by (auto simp: parse_NL80211_BSS_INFORMATION_ELEMENTS_def Let_def mnl_attr_get_payload_len_def
            char_value_zero split: if_splits)
        then show ?thesis using out0 sp0 by simp
      next
        case False
        from r False ne z two have pos: "0 \<le> ?v"
          and s: "s = (strncpy out (drop 2 ?p) (nat ?v))[nat ?v := 0]"
          by (auto simp: parse_NL80211_BSS_INFORMATION_ELEMENTS_def Let_def mnl_attr_get_payload_len_def
            char_value_zero split: if_splits)
        have v: "?v = int n" using vn [OF pos] .
        have b: "n \<le> 32 \<and> n \<le> length ?p - 2"
          using False two unfolding v by (auto simp: SSID_MAX_LENGTH_WITH_NULL_def)
        then have sp1: "spec_ssid ?p = c_string (take n (drop 2 ?p))" using sp by auto
        have "n < length out" using b len by (simp add: SSID_MAX_LENGTH_WITH_NULL_def)
        from strncpy_string [OF this, of "drop 2 ?p"] s sp1 show ?thesis unfolding v by simp
      qed
    qed
  qed
qed

lemma entry_fill_holds:
  assumes f: "entry_fill sc e old = Inr new" and len: "length (ssid old) = SSID_MAX_LENGTH_WITH_NULL"
  shows "holds_entry new e \<and> length (ssid new) = SSID_MAX_LENGTH_WITH_NULL"
proof -
  have six: "\<And>a. bss_table e NL80211_BSS_BSSID = Some a \<Longrightarrow>
      fst (parse_NL80211_BSS_BSSID a (bssid old)) = nla_payload a @ drop 6 (bssid old) \<and> length (nla_payload a) = 6"
    using bss_table_bssid_length parse_bssid_six
    by (simp add: mnl_attr_get_payload_len_def)
  show ?thesis
    using f len six
    apply (simp add: entry_fill_def bss_fill_def Let_def holds_entry_def bss_status_def BSSID_LENGTH_def
        split: option.splits sum.splits prod.splits)
    apply (auto dest!: ie_decodes)
    done
qed

lemma associated_iff:
  "entry_associated e \<longleftrightarrow>
     bss_status (bss_table e) \<in> {NL80211_BSS_STATUS_ASSOCIATED, NL80211_BSS_STATUS_IBSS_JOINED}"
  by (simp add: entry_associated_def associated_or_joined_def)

lemma parse_cases:
  assumes cap: "bss_infos_length sr = int (length (bss_infos sr))" and k: "0 \<le> scanned sr"
    and r: "parse_NL80211_ATTR_BSS sc e sr = Inr sr'"
  shows "(bss_infos sr' = bss_infos sr \<and>
          (bss_infos_length sr = 0 \<or> (\<not> entry_associated e \<and> bss_infos_length sr \<le> scanned sr))) \<or>
         (\<exists>new. \<not> entry_associated e \<and> nat (scanned sr) < length (bss_infos sr) \<and>
            entry_fill sc e (bss_infos sr ! nat (scanned sr)) = Inr new \<and>
            bss_infos sr' = (bss_infos sr)[nat (scanned sr) := new]) \<or>
         (\<exists>new. entry_associated e \<and> 0 < length (bss_infos sr) \<and>
            entry_fill sc e (bss_infos sr ! 0) = Inr new \<and>
            bss_infos sr' =
              (if 0 < scanned sr \<and> scanned sr < bss_infos_length sr
               then (bss_infos sr)[nat (scanned sr) := bss_infos sr ! 0] else bss_infos sr)[0 := new])"
proof (cases "bss_infos_length sr = 0 \<or> (\<not> entry_associated e \<and> bss_infos_length sr \<le> scanned sr)")
  case True
  then have "count_scanned sr = Inr sr'" using parse_skip [OF True k] cap r by simp
  from count_scanned_result [OF this] True show ?thesis by simp
next
  case False
  from r parse_fill [OF cap k False] False cap k show ?thesis
    by (cases "entry_associated e") (auto split: sum.splits dest!: count_scanned_result)
qed





lemma storage_ok_nth: "storage_ok buf \<Longrightarrow> i < length buf \<Longrightarrow> length (ssid (buf ! i)) = SSID_MAX_LENGTH_WITH_NULL"
  by (simp add: storage_ok_def list_all_length)

lemma storage_ok_update:
  "storage_ok buf \<Longrightarrow> length (ssid b) = SSID_MAX_LENGTH_WITH_NULL \<Longrightarrow> storage_ok (buf[i := b])"
  unfolding storage_ok_def list_all_iff by (auto dest!: set_update_subset_insert [THEN subsetD])

lemma parse_storage_ok:
  assumes cap: "bss_infos_length sr = int (length (bss_infos sr))" and k: "0 \<le> scanned sr"
    and r: "parse_NL80211_ATTR_BSS sc e sr = Inr sr'" and ok: "storage_ok (bss_infos sr)"
  shows "storage_ok (bss_infos sr')"
proof -
  from parse_cases [OF cap k r] consider
    (skip) "bss_infos sr' = bss_infos sr"
  | (fill) new where "nat (scanned sr) < length (bss_infos sr)"
      "entry_fill sc e (bss_infos sr ! nat (scanned sr)) = Inr new"
      "bss_infos sr' = (bss_infos sr)[nat (scanned sr) := new]"
  | (first) new where "0 < length (bss_infos sr)"
      "entry_fill sc e (bss_infos sr ! 0) = Inr new"
      "bss_infos sr' =
              (if 0 < scanned sr \<and> scanned sr < bss_infos_length sr
               then (bss_infos sr)[nat (scanned sr) := bss_infos sr ! 0] else bss_infos sr)[0 := new]"
    by blast
  then show ?thesis
  proof cases
    case skip
    then show ?thesis using ok by simp
  next
    case fill
    from entry_fill_holds [OF fill(2) storage_ok_nth [OF ok fill(1)]]
    show ?thesis using fill(3) storage_ok_update [OF ok] by simp
  next
    case first
    have l0: "length (ssid (bss_infos sr ! 0)) = SSID_MAX_LENGTH_WITH_NULL"
      using storage_ok_nth [OF ok first(1)] .
    from entry_fill_holds [OF first(2) l0]
    have ln: "length (ssid new) = SSID_MAX_LENGTH_WITH_NULL" by simp
    have "storage_ok ((bss_infos sr)[nat (scanned sr) := bss_infos sr ! 0])"
      using storage_ok_update [OF ok l0] .
    then show ?thesis using first(3) ok ln storage_ok_update by auto
  qed
qed

lemma dump_storage_ok:
  assumes "bss_infos_length sr = int (length (bss_infos sr))" and "0 \<le> scanned sr"
    and "bss_dump sc es sr = Inr sr'" and "storage_ok (bss_infos sr)"
  shows "storage_ok (bss_infos sr')"
  using assms
proof (induction es arbitrary: sr)
  case Nil
  then show ?case by simp
next
  case (Cons e es)
  from Cons.prems(3) obtain s where s: "parse_NL80211_ATTR_BSS sc e sr = Inr s"
    and rest: "bss_dump sc es s = Inr sr'"
    by (auto split: sum.splits)
  note p = parse_result [OF Cons.prems(1,2) s]
  have c: "bss_infos_length s = int (length (bss_infos s))" "0 \<le> scanned s"
    using p Cons.prems by simp_all
  from Cons.IH [OF c rest parse_storage_ok [OF Cons.prems(1,2) s Cons.prems(4)]]
  show ?case .
qed

lemma dump_overflow:
  assumes "bss_infos_length sr = 0" and "0 \<le> scanned sr" and "scanned sr \<le> INT_MAX"
    and "INT_MAX < scanned sr + int (length es)"
  shows "bss_dump sc es sr = Inl SignedOverflow"
  using assms
proof (induction es arbitrary: sr)
  case Nil
  then show ?case by simp
next
  case (Cons e es)
  have p: "parse_NL80211_ATTR_BSS sc e sr = count_scanned sr"
    using parse_skip [of sr e sc] Cons.prems(1,2) by simp
  show ?case
  proof (cases "scanned sr = INT_MAX")
    case True
    then show ?thesis using p by (simp add: count_scanned_def)
  next
    case False
    then have b: "scanned sr < INT_MAX" using Cons.prems(3) by simp
    have s: "parse_NL80211_ATTR_BSS sc e sr = Inr (sr\<lparr>scanned := scanned sr + 1\<rparr>)"
      using p count_scanned_Inr [OF b] by simp
    show ?thesis
      using Cons.IH [of "sr\<lparr>scanned := scanned sr + 1\<rparr>"] Cons.prems b s
      by simp
  qed
qed


lemma aborted_status:
  assumes "mnl_attr_for_each (nla_payload e) = pre @ a # post \<and>
    (\<forall>y \<in> set pre. \<not> violation y (empty_vd NL80211_BSS_MAX NL80211_BSS_VALIDATION) \<and>
       mnl_attr_get_type y \<noteq> NL80211_BSS_STATUS) \<and>
    violation a (empty_vd NL80211_BSS_MAX NL80211_BSS_VALIDATION)"
  shows "bss_status (bss_table e) = BSS_NONE"
proof -
  from assms have t: "bss_table e = record_attrs NL80211_BSS_MAX pre Map.empty"
    using bss_table_after_violation [of e pre a post] by blast
  from assms have "record_attrs NL80211_BSS_MAX pre Map.empty NL80211_BSS_STATUS = None"
    using record_attrs_absent [of pre NL80211_BSS_STATUS NL80211_BSS_MAX Map.empty] by simp
  with t show ?thesis by (simp add: bss_status_def)
qed

lemma bss_table_member:
  assumes "bss_table e k = Some a"
  shows "a \<in> set (mnl_attr_for_each (nla_payload e)) \<and> mnl_attr_get_type a = k"
  using loop_recorded [of MNL_CB_OK "mnl_attr_for_each (nla_payload e)"
      "empty_vd NL80211_BSS_MAX NL80211_BSS_VALIDATION" k a] assms
  by (auto simp: bss_table_def mnl_attr_parse_nested_def mnl_attr_parse_payload_def empty_vd_def)

lemma bss_table_complete:
  assumes "\<forall>x \<in> set (mnl_attr_for_each (nla_payload e)).
      \<not> violation x (empty_vd NL80211_BSS_MAX NL80211_BSS_VALIDATION)"
  shows "bss_table e = record_attrs NL80211_BSS_MAX (mnl_attr_for_each (nla_payload e)) Map.empty"
  using loop_no_violation [OF assms, of MNL_CB_OK]
  by (simp add: bss_table_def mnl_attr_parse_nested_def mnl_attr_parse_payload_def empty_vd_def)

lemma holds_entry_status: "holds_entry r e \<Longrightarrow> status r = bss_status (bss_table e)"
  by (simp add: holds_entry_def bss_status_def)

section \<open>Properties of the transport\<close>





























section \<open>The messages of a channel and the station record\<close>













section \<open>The storage after the public operations\<close>














section \<open>The example inputs evaluated\<close>

lemma ex_statuses:
  "bss_status (bss_table entry_n1) \<notin> {NL80211_BSS_STATUS_ASSOCIATED, NL80211_BSS_STATUS_IBSS_JOINED}"
  "bss_status (bss_table entry_a2) \<in> {NL80211_BSS_STATUS_ASSOCIATED, NL80211_BSS_STATUS_IBSS_JOINED}"
  "bss_status (bss_table entry_n3) \<notin> {NL80211_BSS_STATUS_ASSOCIATED, NL80211_BSS_STATUS_IBSS_JOINED}"
  "bss_status (bss_table entry_j2) = NL80211_BSS_STATUS_IBSS_JOINED"
  by code_simp+

lemma ex_dump_joined:
  "bss_dump False [entry_n1, entry_j2, entry_n3] two_slot_results =
     Inr (two_slot_results\<lparr>bss_infos := [record_j2, record_n1], scanned := 3\<rparr>)"
  by code_simp

lemma ex_no_violation:
  "\<forall>y \<in> set (mnl_attr_for_each (nla_payload entry_a2)).
     \<not> violation y (empty_vd NL80211_BSS_MAX NL80211_BSS_VALIDATION)"
  by code_simp

lemma ex_status_attr: "bss_table entry_a2 NL80211_BSS_STATUS = Some status_attr_associated"
  by code_simp

lemma ex_overflow:
  "bss_dump False (replicate 2147483648 entry_n3) no_slot_results = Inl SignedOverflow"
proof -
  have "INT_MAX < scanned no_slot_results + int (length (replicate 2147483648 entry_n3))"
    by (simp add: INT_MAX_def no_slot_results_def)
  then show ?thesis
    using dump_overflow [of no_slot_results "replicate 2147483648 entry_n3" False]
    by (simp add: no_slot_results_def INT_MAX_def)
qed






lemma ex_late_status_attrs:
  "mnl_attr_for_each (nla_payload entry_late_status) = [] @ short_bssid_attr # [status_attr_associated]"
  by code_simp

section \<open>C4: validation aborts the parse; what the handler returns\<close>

text \<open>
  C4, as the code has it. In a payload whose attributes are \<open>pre @ a # post\<close>, where no
  attribute of \<open>pre\<close> violates the table and \<open>a\<close> does, the parse returns
  \<open>MNL_CB_ERROR\<close> and the attribute table holds exactly what recording \<open>pre\<close> leaves:
  the attributes before the violation stay recorded, neither \<open>a\<close> nor any attribute of
  \<open>post\<close> is. An attribute whose identifier has no rule and is within the maximum is
  recorded whatever its payload. An attribute whose identifier is above the maximum is
  skipped with \<open>MNL_CB_OK\<close>. The handler does not read the result of the parse:
  \<open>handle_CTRL_CMD_GETFAMILY\<close> returns \<open>MNL_CB_ERROR\<close> after a violation when no family id
  comes before it, and \<open>MNL_CB_OK\<close> when a family id and no group list were recorded
  before it.
\<close>

theorem validation_abort_passthrough_skip:
  "(mnl_attr_for_each bs = pre @ a # post \<and> (\<forall>x \<in> set pre. \<not> violation x vd) \<and> violation a vd \<longrightarrow>
      mnl_attr_parse_payload bs validate vd =
        (MNL_CB_ERROR,
         vd\<lparr>attribute_table := record_attrs (attribute_length vd) pre (attribute_table vd)\<rparr>)) \<and>
   (mnl_attr_get_type b \<le> attribute_length vd \<and>
    (\<forall>v \<in> set (validation vd). av_attr v \<noteq> mnl_attr_get_type b) \<longrightarrow>
      validate b vd =
        (MNL_CB_OK, vd\<lparr>attribute_table := (attribute_table vd)(mnl_attr_get_type b \<mapsto> b)\<rparr>)) \<and>
   (attribute_length vd < mnl_attr_get_type c \<longrightarrow> validate c vd = (MNL_CB_OK, vd)) \<and>
   (mnl_attr_for_each (genl_attrs nlh) = pre' @ a' # post' \<and>
    (\<forall>x \<in> set pre'. \<not> violation x (empty_vd CTRL_ATTR_MAX NL80211_VALIDATION)) \<and>
    violation a' (empty_vd CTRL_ATTR_MAX NL80211_VALIDATION) \<longrightarrow>
      ((\<forall>x \<in> set pre'. mnl_attr_get_type x \<noteq> CTRL_ATTR_FAMILY_ID) \<longrightarrow>
         handle_CTRL_CMD_GETFAMILY nlh channel ctx = Inr (MNL_CB_ERROR, channel, ctx)) \<and>
      (record_attrs CTRL_ATTR_MAX pre' Map.empty CTRL_ATTR_FAMILY_ID = Some fid \<and>
       record_attrs CTRL_ATTR_MAX pre' Map.empty CTRL_ATTR_MCAST_GROUPS = None \<longrightarrow>
         handle_CTRL_CMD_GETFAMILY nlh channel ctx =
           Inr (MNL_CB_OK, channel\<lparr>nl80211_id := mnl_attr_get_u16 fid\<rparr>, ctx)))"
proof (intro conjI impI)
  assume "mnl_attr_for_each bs = pre @ a # post \<and> (\<forall>x \<in> set pre. \<not> violation x vd) \<and> violation a vd"
  then show "mnl_attr_parse_payload bs validate vd =
        (MNL_CB_ERROR,
         vd\<lparr>attribute_table := record_attrs (attribute_length vd) pre (attribute_table vd)\<rparr>)"
    using loop_violation [of pre vd a MNL_CB_OK post] by (simp add: mnl_attr_parse_payload_def)
next
  assume h: "mnl_attr_get_type b \<le> attribute_length vd \<and>
    (\<forall>v \<in> set (validation vd). av_attr v \<noteq> mnl_attr_get_type b)"
  then have "\<not> violation b vd" by (auto simp: violation_def)
  from validate_no_violation [OF this] h
  show "validate b vd =
        (MNL_CB_OK, vd\<lparr>attribute_table := (attribute_table vd)(mnl_attr_get_type b \<mapsto> b)\<rparr>)"
    by (simp add: record_attr_def)
next
  assume h: "attribute_length vd < mnl_attr_get_type c"
  then have "\<not> violation c vd" by (auto simp: violation_def)
  from validate_no_violation [OF this] h
  show "validate c vd = (MNL_CB_OK, vd)"
    by (simp add: record_attr_def)
next
  assume h: "mnl_attr_for_each (genl_attrs nlh) = pre' @ a' # post' \<and>
    (\<forall>x \<in> set pre'. \<not> violation x (empty_vd CTRL_ATTR_MAX NL80211_VALIDATION)) \<and>
    violation a' (empty_vd CTRL_ATTR_MAX NL80211_VALIDATION)"
    and n: "\<forall>x \<in> set pre'. mnl_attr_get_type x \<noteq> CTRL_ATTR_FAMILY_ID"
  show "handle_CTRL_CMD_GETFAMILY nlh channel ctx = Inr (MNL_CB_ERROR, channel, ctx)"
    using getfamily_error_after_violation [of nlh pre' a' post'] h n by blast
next
  assume h: "mnl_attr_for_each (genl_attrs nlh) = pre' @ a' # post' \<and>
    (\<forall>x \<in> set pre'. \<not> violation x (empty_vd CTRL_ATTR_MAX NL80211_VALIDATION)) \<and>
    violation a' (empty_vd CTRL_ATTR_MAX NL80211_VALIDATION)"
    and r: "record_attrs CTRL_ATTR_MAX pre' Map.empty CTRL_ATTR_FAMILY_ID = Some fid \<and>
       record_attrs CTRL_ATTR_MAX pre' Map.empty CTRL_ATTR_MCAST_GROUPS = None"
  show "handle_CTRL_CMD_GETFAMILY nlh channel ctx =
           Inr (MNL_CB_OK, channel\<lparr>nl80211_id := mnl_attr_get_u16 fid\<rparr>, ctx)"
    using getfamily_ok_after_violation [of nlh pre' a' post' fid] h r by blast
qed

text \<open>The theorem at the family reply whose group list is malformed, with the family id
  before it and with the family id after it.\<close>

theorem validation_abort_passthrough_skip_witness:
  "mnl_attr_parse_payload family_reply_attrs validate (empty_vd CTRL_ATTR_MAX NL80211_VALIDATION) =
     (MNL_CB_ERROR,
      (empty_vd CTRL_ATTR_MAX NL80211_VALIDATION)
        \<lparr>attribute_table := record_attrs CTRL_ATTR_MAX [attr_family_id] Map.empty\<rparr>) \<and>
   record_attrs CTRL_ATTR_MAX [attr_family_id] Map.empty 1 = Some attr_family_id \<and>
   record_attrs CTRL_ATTR_MAX [attr_family_id] Map.empty 7 = None \<and>
   record_attrs CTRL_ATTR_MAX [attr_family_id] Map.empty 2 = None \<and>
   validate attr_family_name (empty_vd CTRL_ATTR_MAX NL80211_VALIDATION) =
     (MNL_CB_OK,
      (empty_vd CTRL_ATTR_MAX NL80211_VALIDATION)\<lparr>attribute_table := [2 \<mapsto> attr_family_name]\<rparr>) \<and>
   validate attr_above_max (empty_vd CTRL_ATTR_MAX NL80211_VALIDATION) =
     (MNL_CB_OK, empty_vd CTRL_ATTR_MAX NL80211_VALIDATION) \<and>
   handle_CTRL_CMD_GETFAMILY family_reply_groups_first fresh_channel family_context =
     Inr (MNL_CB_ERROR, fresh_channel, family_context) \<and>
   handle_CTRL_CMD_GETFAMILY family_reply fresh_channel family_context =
     Inr (MNL_CB_OK, fresh_channel\<lparr>nl80211_id := 28\<rparr>, family_context)"
proof -
  have a: "mnl_attr_for_each (genl_attrs family_reply) = [attr_family_id] @ attr_bad_groups # [attr_family_name]"
    using family_reply_attrs_eq by (simp add: family_reply_def)
  have f: "record_attrs CTRL_ATTR_MAX [attr_family_id] Map.empty CTRL_ATTR_FAMILY_ID = Some attr_family_id"
    "record_attrs CTRL_ATTR_MAX [attr_family_id] Map.empty CTRL_ATTR_MCAST_GROUPS = None"
    "record_attrs CTRL_ATTR_MAX [attr_family_id] Map.empty 2 = None"
    by (simp_all add: record_attrs_def record_attr_def attr_family_id_def mnl_attr_get_type_def nl_consts)
  have v: "mnl_attr_get_u16 attr_family_id = 28"
    by (simp add: mnl_attr_get_u16_def attr_family_id_def le_word_def)
  have n: "mnl_attr_get_type attr_family_name = 2" "mnl_attr_get_type attr_above_max = 11"
    by (simp_all add: attr_family_name_def attr_above_max_def mnl_attr_get_type_def)
  have l: "attribute_length (empty_vd CTRL_ATTR_MAX NL80211_VALIDATION) = 10"
    "validation (empty_vd CTRL_ATTR_MAX NL80211_VALIDATION) = NL80211_VALIDATION"
    "attribute_table (empty_vd CTRL_ATTR_MAX NL80211_VALIDATION) = Map.empty"
    by (simp_all add: empty_vd_def nl_consts)
  have t: "\<forall>v \<in> set NL80211_VALIDATION. av_attr v \<noteq> 2"
    by (simp add: NL80211_VALIDATION_def nl_consts)
  note w1 = validation_abort_passthrough_skip
    [of family_reply_attrs "[attr_family_id]" attr_bad_groups "[attr_family_name]"
      "empty_vd CTRL_ATTR_MAX NL80211_VALIDATION" attr_family_name attr_above_max
      family_reply "[attr_family_id]" attr_bad_groups "[attr_family_name]"
      fresh_channel family_context attr_family_id]
  note w2 = validation_abort_passthrough_skip
    [of family_reply_attrs "[attr_family_id]" attr_bad_groups "[attr_family_name]"
      "empty_vd CTRL_ATTR_MAX NL80211_VALIDATION" attr_family_name attr_above_max
      family_reply_groups_first "[]" attr_bad_groups "[attr_family_id]"
      fresh_channel family_context attr_family_id]
  show ?thesis
    using w1 w2 a f v n l t family_reply_attrs_eq family_reply_groups_first_attrs
      bad_groups_violation family_id_no_violation
    by (simp add: nl_consts)
qed

text \<open>
  C4 as the specification states it fails: a violation does not make the handler return
  an error status. In this reply the group list violates its rule, and the handler
  returns \<open>MNL_CB_OK\<close> with the family id 28 stored.
\<close>

theorem handler_ok_counterexample:
  "mnl_attr_for_each (genl_attrs family_reply) = [attr_family_id, attr_bad_groups, attr_family_name] \<and>
   violation attr_bad_groups (empty_vd CTRL_ATTR_MAX NL80211_VALIDATION) \<and>
   handle_CTRL_CMD_GETFAMILY family_reply fresh_channel family_context =
     Inr (MNL_CB_OK, fresh_channel\<lparr>nl80211_id := 28\<rparr>, family_context)"
proof -
  have a: "mnl_attr_for_each (genl_attrs family_reply) = [attr_family_id] @ attr_bad_groups # [attr_family_name]"
    using family_reply_attrs_eq by (simp add: family_reply_def)
  have f: "record_attrs CTRL_ATTR_MAX [attr_family_id] Map.empty CTRL_ATTR_FAMILY_ID = Some attr_family_id"
    by (simp add: record_attrs_def record_attr_def attr_family_id_def mnl_attr_get_type_def nl_consts)
  have g: "record_attrs CTRL_ATTR_MAX [attr_family_id] Map.empty CTRL_ATTR_MCAST_GROUPS = None"
    by (simp add: record_attrs_def record_attr_def attr_family_id_def mnl_attr_get_type_def nl_consts)
  have v: "mnl_attr_get_u16 attr_family_id = 28"
    by (simp add: mnl_attr_get_u16_def attr_family_id_def le_word_def)
  show ?thesis
    using a bad_groups_violation getfamily_ok_after_violation [OF a _ bad_groups_violation f g, of fresh_channel family_context]
      family_id_no_violation v
    by simp
qed

section \<open>C1: placement of the associated BSS and the count of entries\<close>

text \<open>
  C1, as the code has it. An entry is associated or joined when the status that its
  validated parse records is \<open>NL80211_BSS_STATUS_ASSOCIATED\<close> or
  \<open>NL80211_BSS_STATUS_IBSS_JOINED\<close>; an attribute of the table is an attribute of the
  entry, and the table holds all of them when none violates a rule; an entry whose parse
  a violation stops before any status attribute has the status \<open>BSS_NONE\<close> and is not
  associated or joined. A record holds the
  BSS of an entry when it has the status of the entry and the value of every field whose
  attribute the entry carries. With storage of two slots and the entries
  non-associated, associated, non-associated in this order, whose information elements
  decode without a fault, the storage ends as the record of the second entry followed by
  the record of the first, each holding the BSS of its entry, and \<open>scanned\<close> is 3. With
  capacity 0 the storage is left as it was and \<open>scanned\<close> is the number of entries. For
  every capacity, a dump of at most \<open>INT_MAX\<close> entries whose information elements decode
  without a fault returns with \<open>scanned\<close> equal to the number of entries. When the
  storage has a slot 0 and the dump holds an associated or joined entry, slot 0 ends
  holding the BSS of the last such entry, with a status that is associated or joined: the
  attributes of that entry written over what slot 0 held when it arrived.
\<close>

theorem bounded_placement:
  "(bss_infos sr = [s0, s1] \<and> bss_infos_length sr = 2 \<and> scanned sr = 0 \<and> storage_ok [s0, s1] \<and>
    bss_status (bss_table n1) \<notin> {NL80211_BSS_STATUS_ASSOCIATED, NL80211_BSS_STATUS_IBSS_JOINED} \<and>
    bss_status (bss_table a2) \<in> {NL80211_BSS_STATUS_ASSOCIATED, NL80211_BSS_STATUS_IBSS_JOINED} \<and>
    bss_status (bss_table n3) \<notin> {NL80211_BSS_STATUS_ASSOCIATED, NL80211_BSS_STATUS_IBSS_JOINED} \<and>
    entry_fill sc n1 s0 = Inr r1 \<and> entry_fill sc a2 r1 = Inr r2 \<longrightarrow>
      bss_dump sc [n1, a2, n3] sr = Inr (sr\<lparr>bss_infos := [r2, r1], scanned := 3\<rparr>) \<and>
      holds_entry r2 a2 \<and> holds_entry r1 n1) \<and>
   (bss_infos_length sr0 = 0 \<and> scanned sr0 = 0 \<and> int (length es0) \<le> INT_MAX \<longrightarrow>
      bss_dump sc es0 sr0 = Inr (sr0\<lparr>scanned := int (length es0)\<rparr>)) \<and>
   (bss_infos_length sr1 = int (length (bss_infos sr1)) \<and> scanned sr1 = 0 \<and>
    int (length es) \<le> INT_MAX \<and> (\<forall>e \<in> set es. entry_fault_free sc e) \<longrightarrow>
      (\<exists>sr'. bss_dump sc es sr1 = Inr sr' \<and> scanned sr' = int (length es))) \<and>
   (bss_infos_length sr2 = int (length (bss_infos sr2)) \<and> 0 < length (bss_infos sr2) \<and>
    storage_ok (bss_infos sr2) \<and> scanned sr2 = 0 \<and>
    bss_status (bss_table a) \<in> {NL80211_BSS_STATUS_ASSOCIATED, NL80211_BSS_STATUS_IBSS_JOINED} \<and>
    (\<forall>x \<in> set post.
       bss_status (bss_table x) \<notin> {NL80211_BSS_STATUS_ASSOCIATED, NL80211_BSS_STATUS_IBSS_JOINED}) \<and>
    bss_dump sc (pre @ a # post) sr2 = Inr sr2' \<longrightarrow>
      holds_entry (bss_infos sr2' ! 0) a \<and>
      status (bss_infos sr2' ! 0) \<in> {NL80211_BSS_STATUS_ASSOCIATED, NL80211_BSS_STATUS_IBSS_JOINED} \<and>
      (\<exists>s. bss_dump sc pre sr2 = Inr s \<and>
           entry_fill sc a (bss_infos s ! 0) = Inr (bss_infos sr2' ! 0))) \<and>
   (bss_table e k = Some x \<longrightarrow>
      x \<in> set (mnl_attr_for_each (nla_payload e)) \<and> mnl_attr_get_type x = k) \<and>
   ((\<forall>y \<in> set (mnl_attr_for_each (nla_payload e')).
       \<not> violation y (empty_vd NL80211_BSS_MAX NL80211_BSS_VALIDATION)) \<longrightarrow>
      bss_table e' = record_attrs NL80211_BSS_MAX (mnl_attr_for_each (nla_payload e')) Map.empty) \<and>
   (mnl_attr_for_each (nla_payload e'') = before @ v # after \<and>
    (\<forall>y \<in> set before. \<not> violation y (empty_vd NL80211_BSS_MAX NL80211_BSS_VALIDATION) \<and>
       mnl_attr_get_type y \<noteq> NL80211_BSS_STATUS) \<and>
    violation v (empty_vd NL80211_BSS_MAX NL80211_BSS_VALIDATION) \<longrightarrow>
      bss_status (bss_table e'') = BSS_NONE \<and>
      bss_status (bss_table e'') \<notin> {NL80211_BSS_STATUS_ASSOCIATED, NL80211_BSS_STATUS_IBSS_JOINED})"
proof (intro conjI impI)
  assume h: "bss_infos sr = [s0, s1] \<and> bss_infos_length sr = 2 \<and> scanned sr = 0 \<and> storage_ok [s0, s1] \<and>
    bss_status (bss_table n1) \<notin> {NL80211_BSS_STATUS_ASSOCIATED, NL80211_BSS_STATUS_IBSS_JOINED} \<and>
    bss_status (bss_table a2) \<in> {NL80211_BSS_STATUS_ASSOCIATED, NL80211_BSS_STATUS_IBSS_JOINED} \<and>
    bss_status (bss_table n3) \<notin> {NL80211_BSS_STATUS_ASSOCIATED, NL80211_BSS_STATUS_IBSS_JOINED} \<and>
    entry_fill sc n1 s0 = Inr r1 \<and> entry_fill sc a2 r1 = Inr r2"
  then have st: "\<not> entry_associated n1" "entry_associated a2" "\<not> entry_associated n3"
    by (simp_all add: associated_iff)
  from h st show "bss_dump sc [n1, a2, n3] sr = Inr (sr\<lparr>bss_infos := [r2, r1], scanned := 3\<rparr>)"
    using example_capacity_two [of sr s0 s1 n1 a2 n3 sc r1 r2] by blast
  have l0: "length (ssid s0) = SSID_MAX_LENGTH_WITH_NULL" using h by (simp add: storage_ok_def)
  have f1: "entry_fill sc n1 s0 = Inr r1" and f2: "entry_fill sc a2 r1 = Inr r2" using h by simp_all
  note e1 = entry_fill_holds [OF f1 l0]
  then show "holds_entry r1 n1" by simp
  from e1 have "length (ssid r1) = SSID_MAX_LENGTH_WITH_NULL" by simp
  from entry_fill_holds [OF f2 this] show "holds_entry r2 a2" by simp
next
  assume "bss_infos_length sr0 = 0 \<and> scanned sr0 = 0 \<and> int (length es0) \<le> INT_MAX"
  then show "bss_dump sc es0 sr0 = Inr (sr0\<lparr>scanned := int (length es0)\<rparr>)"
    using dump_capacity_zero [of sr0 es0 sc] by simp
next
  assume h: "bss_infos_length sr1 = int (length (bss_infos sr1)) \<and> scanned sr1 = 0 \<and>
    int (length es) \<le> INT_MAX \<and> (\<forall>e \<in> set es. entry_fault_free sc e)"
  then obtain sr' where r: "bss_dump sc es sr1 = Inr sr'"
    using dump_returns [of sr1 es sc] by auto
  with h dump_result [of sr1 sc es sr']
  show "\<exists>sr'. bss_dump sc es sr1 = Inr sr' \<and> scanned sr' = int (length es)" by auto
next
  assume h: "bss_infos_length sr2 = int (length (bss_infos sr2)) \<and> 0 < length (bss_infos sr2) \<and>
    storage_ok (bss_infos sr2) \<and> scanned sr2 = 0 \<and>
    bss_status (bss_table a) \<in> {NL80211_BSS_STATUS_ASSOCIATED, NL80211_BSS_STATUS_IBSS_JOINED} \<and>
    (\<forall>x \<in> set post.
       bss_status (bss_table x) \<notin> {NL80211_BSS_STATUS_ASSOCIATED, NL80211_BSS_STATUS_IBSS_JOINED}) \<and>
    bss_dump sc (pre @ a # post) sr2 = Inr sr2'"
  then have as: "entry_associated a" and np: "\<forall>x \<in> set post. \<not> entry_associated x"
    by (simp_all add: associated_iff)
  from h obtain s t where s: "bss_dump sc pre sr2 = Inr s"
    and t: "parse_NL80211_ATTR_BSS sc a s = Inr t" and u: "bss_dump sc post t = Inr sr2'"
    by (auto simp: dump_append split: sum.splits)
  have cap: "bss_infos_length sr2 = int (length (bss_infos sr2))" and k2: "0 \<le> scanned sr2"
    and ok: "storage_ok (bss_infos sr2)" using h by simp_all
  note ds = dump_result [OF cap k2 s]
  have cap_s: "bss_infos_length s = int (length (bss_infos s))" and k_s: "0 \<le> scanned s"
    and pos_s: "0 < length (bss_infos s)"
    using ds h by simp_all
  note pt = parse_result [OF cap_s k_s t]
  have first: "entry_fill sc a (bss_infos s ! 0) = Inr (bss_infos t ! 0)"
    using associated_fills_first [OF cap_s k_s pos_s as t] .
  have cap_t: "bss_infos_length t = int (length (bss_infos t))" and k_t: "0 < scanned t"
    using pt cap_s k_s by simp_all
  have keep: "bss_infos sr2' ! 0 = bss_infos t ! 0"
    using nonassociated_keeps_first [OF cap_t k_t np u] .
  have "length (ssid (bss_infos s ! 0)) = SSID_MAX_LENGTH_WITH_NULL"
    using storage_ok_nth [OF dump_storage_ok [OF cap k2 s ok] pos_s] .
  from entry_fill_holds [OF first this] keep
  show he: "holds_entry (bss_infos sr2' ! 0) a" by simp
  from holds_entry_status [OF he] h
  show "status (bss_infos sr2' ! 0) \<in> {NL80211_BSS_STATUS_ASSOCIATED, NL80211_BSS_STATUS_IBSS_JOINED}"
    by simp
  show "\<exists>s. bss_dump sc pre sr2 = Inr s \<and>
           entry_fill sc a (bss_infos s ! 0) = Inr (bss_infos sr2' ! 0)"
    using s first keep by auto
next
  assume "bss_table e k = Some x"
  from bss_table_member [OF this]
  show "x \<in> set (mnl_attr_for_each (nla_payload e))" and "mnl_attr_get_type x = k" by simp_all
next
  assume "\<forall>y \<in> set (mnl_attr_for_each (nla_payload e')).
       \<not> violation y (empty_vd NL80211_BSS_MAX NL80211_BSS_VALIDATION)"
  then show "bss_table e' = record_attrs NL80211_BSS_MAX (mnl_attr_for_each (nla_payload e')) Map.empty"
    by (rule bss_table_complete)
next
  assume h: "mnl_attr_for_each (nla_payload e'') = before @ v # after \<and>
    (\<forall>y \<in> set before. \<not> violation y (empty_vd NL80211_BSS_MAX NL80211_BSS_VALIDATION) \<and>
       mnl_attr_get_type y \<noteq> NL80211_BSS_STATUS) \<and>
    violation v (empty_vd NL80211_BSS_MAX NL80211_BSS_VALIDATION)"
  from aborted_status [OF h] show "bss_status (bss_table e'') = BSS_NONE" .
  then show "bss_status (bss_table e'') \<notin> {NL80211_BSS_STATUS_ASSOCIATED, NL80211_BSS_STATUS_IBSS_JOINED}"
    by (simp add: BSS_NONE_def nl_consts)
qed

text \<open>The theorem at the three example entries, for storage of two slots and of none,
  at a dump whose second entry is joined to an IBSS, and at the entry whose status
  attribute follows a BSSID attribute of five bytes.\<close>

theorem bounded_placement_witness:
  "bss_dump False [entry_n1, entry_a2, entry_n3] two_slot_results =
     Inr (two_slot_results\<lparr>bss_infos := [record_a2, record_n1], scanned := 3\<rparr>) \<and>
   holds_entry record_a2 entry_a2 \<and> holds_entry record_n1 entry_n1 \<and>
   bss_dump False [entry_n1, entry_a2, entry_n3] no_slot_results =
     Inr (no_slot_results\<lparr>scanned := 3\<rparr>) \<and>
   (\<exists>sr'. bss_dump False [entry_n1, entry_a2, entry_n3] two_slot_results = Inr sr' \<and>
      scanned sr' = 3) \<and>
   bss_status (bss_table entry_j2) = NL80211_BSS_STATUS_IBSS_JOINED \<and>
   holds_entry record_j2 entry_j2 \<and>
   status record_j2 \<in> {NL80211_BSS_STATUS_ASSOCIATED, NL80211_BSS_STATUS_IBSS_JOINED} \<and>
   (\<exists>s. bss_dump False [entry_n1] two_slot_results = Inr s \<and>
      entry_fill False entry_j2 (bss_infos s ! 0) = Inr record_j2) \<and>
   status_attr_associated \<in> set (mnl_attr_for_each (nla_payload entry_a2)) \<and>
   mnl_attr_get_type status_attr_associated = NL80211_BSS_STATUS \<and>
   bss_table entry_a2 =
     record_attrs NL80211_BSS_MAX (mnl_attr_for_each (nla_payload entry_a2)) Map.empty \<and>
   bss_status (bss_table entry_late_status) = BSS_NONE"
proof -
  have two: "bss_infos two_slot_results = [zero_bss, zero_bss]"
    "bss_infos_length two_slot_results = 2" "scanned two_slot_results = 0"
    "bss_infos_length two_slot_results = int (length (bss_infos two_slot_results))"
    "0 < length (bss_infos two_slot_results)" "storage_ok [zero_bss, zero_bss]"
    "storage_ok (bss_infos two_slot_results)"
    by (simp_all add: two_slot_results_def storage_ok_def zero_bss_def SSID_MAX_LENGTH_WITH_NULL_def)
  have none: "bss_infos_length no_slot_results = 0" "scanned no_slot_results = 0"
    by (simp_all add: no_slot_results_def)
  have len: "int (length [entry_n1, entry_a2, entry_n3]) \<le> INT_MAX"
    by (simp add: INT_MAX_def)
  note c1 = bounded_placement [where sr = two_slot_results and ?s0.0 = zero_bss and ?s1.0 = zero_bss
      and ?n1.0 = entry_n1 and ?a2.0 = entry_a2 and ?n3.0 = entry_n3 and sc = False
      and ?r1.0 = record_n1 and ?r2.0 = record_a2, THEN conjunct1]
  note c2 = bounded_placement [where ?sr0.0 = no_slot_results
      and ?es0.0 = "[entry_n1, entry_a2, entry_n3]" and sc = False, THEN conjunct2, THEN conjunct1]
  note c3 = bounded_placement [where ?sr1.0 = two_slot_results
      and es = "[entry_n1, entry_a2, entry_n3]" and sc = False,
      THEN conjunct2, THEN conjunct2, THEN conjunct1]
  note c4 = bounded_placement [where ?sr2.0 = two_slot_results and a = entry_j2
      and post = "[entry_n3]" and pre = "[entry_n1]" and sc = False
      and ?sr2' = "two_slot_results\<lparr>bss_infos := [record_j2, record_n1], scanned := 3\<rparr>",
      THEN conjunct2, THEN conjunct2, THEN conjunct2, THEN conjunct1]
  note c5 = bounded_placement [where e = entry_a2 and k = NL80211_BSS_STATUS
      and x = status_attr_associated,
      THEN conjunct2, THEN conjunct2, THEN conjunct2, THEN conjunct2, THEN conjunct1]
  note c6 = bounded_placement [where e' = entry_a2,
      THEN conjunct2, THEN conjunct2, THEN conjunct2, THEN conjunct2, THEN conjunct2, THEN conjunct1]
  note c7 = bounded_placement [where e'' = entry_late_status and before = "[]"
      and v = short_bssid_attr and after = "[status_attr_associated]",
      THEN conjunct2, THEN conjunct2, THEN conjunct2, THEN conjunct2, THEN conjunct2, THEN conjunct2]
  have dump: "bss_dump False [entry_n1, entry_a2, entry_n3] two_slot_results =
      Inr (two_slot_results\<lparr>bss_infos := [record_a2, record_n1], scanned := 3\<rparr>) \<and>
      holds_entry record_a2 entry_a2 \<and> holds_entry record_n1 entry_n1"
    using c1 two ex_statuses ex_fill_n1 ex_fill_a2 by blast
  have zero: "bss_dump False [entry_n1, entry_a2, entry_n3] no_slot_results =
      Inr (no_slot_results\<lparr>scanned := 3\<rparr>)"
    using c2 none len by simp
  have count: "\<exists>sr'. bss_dump False [entry_n1, entry_a2, entry_n3] two_slot_results = Inr sr' \<and>
      scanned sr' = 3"
    using c3 two len ex_fault_free by simp
  have post: "\<forall>x \<in> set [entry_n3].
      bss_status (bss_table x) \<notin> {NL80211_BSS_STATUS_ASSOCIATED, NL80211_BSS_STATUS_IBSS_JOINED}"
    using ex_statuses(3) by simp
  have j: "bss_status (bss_table entry_j2) \<in> {NL80211_BSS_STATUS_ASSOCIATED, NL80211_BSS_STATUS_IBSS_JOINED}"
    using ex_statuses(4) by simp
  have dj: "bss_dump False ([entry_n1] @ entry_j2 # [entry_n3]) two_slot_results =
     Inr (two_slot_results\<lparr>bss_infos := [record_j2, record_n1], scanned := 3\<rparr>)"
    using ex_dump_joined by simp
  have first: "holds_entry record_j2 entry_j2 \<and>
      status record_j2 \<in> {NL80211_BSS_STATUS_ASSOCIATED, NL80211_BSS_STATUS_IBSS_JOINED} \<and>
      (\<exists>s. bss_dump False [entry_n1] two_slot_results = Inr s \<and>
        entry_fill False entry_j2 (bss_infos s ! 0) = Inr record_j2)"
    using c4 two(3,4,5,7) j post dj by simp
  have member: "status_attr_associated \<in> set (mnl_attr_for_each (nla_payload entry_a2)) \<and>
      mnl_attr_get_type status_attr_associated = NL80211_BSS_STATUS"
    using c5 ex_status_attr by blast
  have full: "bss_table entry_a2 =
      record_attrs NL80211_BSS_MAX (mnl_attr_for_each (nla_payload entry_a2)) Map.empty"
    using c6 ex_no_violation by simp
  have late: "bss_status (bss_table entry_late_status) = BSS_NONE"
    using c7 ex_late_status_attrs short_bssid_violation by simp
  show ?thesis using dump zero count ex_statuses(4) first member full late by simp
qed

text \<open>
  C1 as the specification states it fails at four inputs. A BSS whose status attribute,
  associated, follows a BSSID attribute of five bytes is placed as not associated: the
  parse of the entry stops at the BSSID, and slot 0 keeps the first BSS. An associated BSS
  that carries its status alone leaves the BSSID of the first BSS in slot 0. Where
  \<^verbatim>\<open>char\<close> is signed, a dump whose entry declares an SSID of 128 bytes is counted with
  capacity 0 and faults with capacity 2. A dump of \<open>2\<^sup>3\<^sup>1\<close> entries overflows the
  counter.
\<close>

theorem placement_counterexample:
  "mnl_attr_for_each (nla_payload entry_late_status) = [short_bssid_attr, status_attr_associated] \<and>
   mnl_attr_get_type status_attr_associated = NL80211_BSS_STATUS \<and>
   mnl_attr_get_u32 status_attr_associated = NL80211_BSS_STATUS_ASSOCIATED \<and>
   bss_dump False [entry_n1, entry_late_status] two_slot_results =
     Inr (two_slot_results\<lparr>bss_infos := [record_n1, zero_bss\<lparr>status := BSS_NONE\<rparr>], scanned := 2\<rparr>) \<and>
   bss_dump True [entry_n1, entry_late_status] two_slot_results =
     Inr (two_slot_results\<lparr>bss_infos := [record_n1, zero_bss\<lparr>status := BSS_NONE\<rparr>], scanned := 2\<rparr>) \<and>
   status record_n1 = BSS_NONE \<and>
   BSS_NONE \<noteq> NL80211_BSS_STATUS_ASSOCIATED \<and>
   bss_status (bss_table entry_status_only) = NL80211_BSS_STATUS_ASSOCIATED \<and>
   bss_dump False [entry_n1, entry_status_only, entry_n3] two_slot_results =
     Inr (two_slot_results\<lparr>bss_infos := [record_n1\<lparr>status := NL80211_BSS_STATUS_ASSOCIATED\<rparr>, record_n1],
            scanned := 3\<rparr>) \<and>
   bss_dump True [entry_ssid_128] no_slot_results = Inr (no_slot_results\<lparr>scanned := 1\<rparr>) \<and>
   bss_dump True [entry_ssid_128] two_slot_results = Inl SsidOverrun \<and>
   bss_dump False (replicate 2147483648 entry_n3) no_slot_results = Inl SignedOverflow"
proof -
  have a: "mnl_attr_for_each (nla_payload entry_late_status) = [short_bssid_attr, status_attr_associated]"
    "mnl_attr_get_type status_attr_associated = NL80211_BSS_STATUS"
    "mnl_attr_get_u32 status_attr_associated = NL80211_BSS_STATUS_ASSOCIATED"
    "bss_dump False [entry_n1, entry_late_status] two_slot_results =
     Inr (two_slot_results\<lparr>bss_infos := [record_n1, zero_bss\<lparr>status := BSS_NONE\<rparr>], scanned := 2\<rparr>)"
    "bss_dump True [entry_n1, entry_late_status] two_slot_results =
     Inr (two_slot_results\<lparr>bss_infos := [record_n1, zero_bss\<lparr>status := BSS_NONE\<rparr>], scanned := 2\<rparr>)"
    "status record_n1 = BSS_NONE"
    "BSS_NONE \<noteq> NL80211_BSS_STATUS_ASSOCIATED"
    "bss_status (bss_table entry_status_only) = NL80211_BSS_STATUS_ASSOCIATED"
    "bss_dump False [entry_n1, entry_status_only, entry_n3] two_slot_results =
     Inr (two_slot_results\<lparr>bss_infos := [record_n1\<lparr>status := NL80211_BSS_STATUS_ASSOCIATED\<rparr>, record_n1],
            scanned := 3\<rparr>)"
    "bss_dump True [entry_ssid_128] no_slot_results = Inr (no_slot_results\<lparr>scanned := 1\<rparr>)"
    "bss_dump True [entry_ssid_128] two_slot_results = Inl SsidOverrun"
    by code_simp+
  show ?thesis using a ex_overflow by blast
qed

section \<open>C10: the writes of the placement routine\<close>

text \<open>
  C10 at its failing input. The capacity passed is the number of slots of the storage
  and \<open>scanned\<close> is 0. Where \<^verbatim>\<open>char\<close> is signed, the declared SSID length 128 of the
  information elements of the entry is read as -128, passes the test of line 801 and
  is the count of \<^verbatim>\<open>strncpy\<close> and the index of the terminator: the fill of the record
  writes outside the SSID array, the record and the storage.
\<close>

theorem record_fill_overruns_storage:
  "bss_infos_length two_slot_results = int (length (bss_infos two_slot_results)) \<and>
   scanned two_slot_results = 0 \<and>
   bss_table entry_ssid_128 NL80211_BSS_INFORMATION_ELEMENTS = Some ie_length_128 \<and>
   char_value True (nla_payload ie_length_128 ! 1) = - 128 \<and>
   parse_NL80211_ATTR_BSS True entry_ssid_128 two_slot_results = Inl SsidOverrun \<and>
   bss_dump True [entry_n1, entry_ssid_128] two_slot_results = Inl SsidOverrun"
  by code_simp

section \<open>C9: fields whose attribute is absent\<close>




section \<open>C8: the BSSID\<close>




section \<open>C6: the notification handler\<close>

text \<open>
  C6. The handler always returns \<open>MNL_CB_OK\<close>. The flag of a triggered scan becomes 1
  for the trigger-scan command and is unchanged otherwise; the flag of fresh results
  becomes 1 for the new-scan-results command with sender port id and sequence number
  both 0 and is unchanged otherwise. So a trigger sets the first flag only, new scan
  results set the second if and only if both are 0, and any other command changes
  neither.
\<close>

theorem notification_flags:
  "fst (handle_NL80211_MULTICAST_GROUP_SCAN nlh ctx) = MNL_CB_OK \<and>
   scan_triggered (snd (handle_NL80211_MULTICAST_GROUP_SCAN nlh ctx)) =
     (if genl_cmd nlh = NL80211_CMD_TRIGGER_SCAN then 1 else scan_triggered ctx) \<and>
   new_scan_results (snd (handle_NL80211_MULTICAST_GROUP_SCAN nlh ctx)) =
     (if genl_cmd nlh = NL80211_CMD_NEW_SCAN_RESULTS \<and> nlmsg_pid nlh = 0 \<and> nlmsg_seq nlh = 0
      then 1 else new_scan_results ctx) \<and>
   context_NL80211_MULTICAST_GROUP_SCAN.more (snd (handle_NL80211_MULTICAST_GROUP_SCAN nlh ctx)) =
     context_NL80211_MULTICAST_GROUP_SCAN.more ctx"
  by (simp add: handle_NL80211_MULTICAST_GROUP_SCAN_def nl_consts)

section \<open>C3: the SSID of the information elements\<close>

text \<open>
  C3 at its failing inputs. For a payload of the single byte 0 the code reads
  \<^verbatim>\<open>payload[1]\<close>, past the end of the payload, whatever the signedness of \<^verbatim>\<open>char\<close>. Where
  \<^verbatim>\<open>char\<close> is signed, a declared length of 128 or more is negative, passes both
  comparisons and is the count of \<^verbatim>\<open>strncpy\<close>.
\<close>

theorem ie_faults:
  "parse_NL80211_BSS_INFORMATION_ELEMENTS char_signed ie_one_byte SSID_OUT = Inl OutOfBoundsRead \<and>
   parse_NL80211_BSS_INFORMATION_ELEMENTS True ie_length_128 SSID_OUT = Inl SsidOverrun"
  by (simp add: parse_NL80211_BSS_INFORMATION_ELEMENTS_def ie_one_byte_def ie_length_128_def
      mnl_attr_get_payload_len_def char_value_def SSID_MAX_LENGTH_WITH_NULL_def Let_def)

section \<open>C7: the sequence counter\<close>




section \<open>C2: a failure of the dump in \<open>wifi_scan_all\<close>\<close>

text \<open>
  C2 at its failing inputs. In both handles the notification of new scan results is
  already waiting, so no scan is triggered. In the first the dump request cannot be
  sent; in the second the dump breaks with a receive error after one BSS. \<^verbatim>\<open>get_scan\<close>
  returns \<open>MNL_CB_ERROR\<close> in both, and \<^verbatim>\<open>wifi_scan_all\<close> returns the counts 0 and 1.
\<close>

theorem scan_all_ignores_dump_failure:
  "(case get_scan False (command_channel wifi_send_fails)
           \<lparr>bss_infos = [zero_bss, zero_bss], bss_infos_length = 2, scanned = 0\<rparr> of
      Inl f \<Rightarrow> False | Inr (r, ch, sr) \<Rightarrow> r = MNL_CB_ERROR) \<and>
   (case wifi_scan_all False wifi_send_fails [zero_bss, zero_bss] 2 of
      Inl f \<Rightarrow> False | Inr (r, wifi, buf) \<Rightarrow> r = 0) \<and>
   (case get_scan False (command_channel wifi_dump_breaks)
           \<lparr>bss_infos = [zero_bss, zero_bss], bss_infos_length = 2, scanned = 0\<rparr> of
      Inl f \<Rightarrow> False | Inr (r, ch, sr) \<Rightarrow> r = MNL_CB_ERROR) \<and>
   (case wifi_scan_all False wifi_dump_breaks [zero_bss, zero_bss] 2 of
      Inl f \<Rightarrow> False | Inr (r, wifi, buf) \<Rightarrow> r = 1)"
  by code_simp

section \<open>C5: the station of a BSS that is not associated\<close>

text \<open>
  C5 at its failing input. The dump holds one BSS, which has no status attribute, and
  the station query for its BSSID is answered. \<^verbatim>\<open>wifi_scan_station\<close> returns 1 and the
  station record holds the BSSID of that BSS with the status \<open>BSS_NONE\<close>.
\<close>

theorem station_of_unassociated_bss:
  "\<not> entry_associated entry_n1 \<and>
   (case wifi_scan_station False zero_bss wifi_not_associated stored_station of
      Inl f \<Rightarrow> False
    | Inr (r, wifi, st) \<Rightarrow>
        r = 1 \<and> sta_bssid st = [0x11, 0x11, 0x11, 0x11, 0x11, 0x11] \<and> sta_status st = BSS_NONE \<and>
        rx_packets st = 10 \<and> tx_packets st = 20) \<and>
   (case wifi_scan_station True zero_bss wifi_not_associated stored_station of
      Inl f \<Rightarrow> False | Inr (r, wifi, st) \<Rightarrow> r = 1)"
  by code_simp

end
